theory Spec2Isabelle
  imports Main "HOL-Library.Word"
begin

section \<open>Monster AI of the game server: a shallow embedding of monster.cpp\<close>

text \<open>
  The definitions below follow \<^verbatim>\<open>src/src/monster.cpp\<close> function by function. Other
  creatures are referred to by an identity; a shared pointer is the identity itself, a
  weak pointer is an optional identity whose \<open>None\<close> is the expired handle (the only
  thing the code can observe of an expired \<^verbatim>\<open>weak_ptr\<close> is that \<^verbatim>\<open>lock()\<close> is null).
  Services that live outside monster.cpp (the map, the base class Creature, the random
  number generator, the clock) are arguments of the functions that call them.
\<close>

subsection \<open>Positions and directions\<close>

text \<open>
  Modelled from the spec: the type Position (position.h is not among the sources). The
  coordinates are 16-bit (x, y) and 8-bit (z) unsigned fields; \<open>getX\<close>, \<open>getY\<close> read
  them into a signed integer wide enough for every difference, offsets are plain
  differences and distances their absolute values (the spec's Chebyshev distance is the
  maximum of the two axis distances, its Manhattan distance their sum).
\<close>

record Position =
  pos_x :: "16 word"
  pos_y :: "16 word"
  pos_z :: "8 word"

definition getX :: "Position \<Rightarrow> int" where
  "getX p = uint (pos_x p)"

definition getY :: "Position \<Rightarrow> int" where
  "getY p = uint (pos_y p)"

definition getOffsetX :: "Position \<Rightarrow> Position \<Rightarrow> int" where
  "getOffsetX p1 p2 = getX p1 - getX p2"

definition getOffsetY :: "Position \<Rightarrow> Position \<Rightarrow> int" where
  "getOffsetY p1 p2 = getY p1 - getY p2"

definition getDistanceX :: "Position \<Rightarrow> Position \<Rightarrow> int" where
  "getDistanceX p1 p2 = \<bar>getOffsetX p1 p2\<bar>"

definition getDistanceY :: "Position \<Rightarrow> Position \<Rightarrow> int" where
  "getDistanceY p1 p2 = \<bar>getOffsetY p1 p2\<bar>"

definition getDistanceZ :: "Position \<Rightarrow> Position \<Rightarrow> int" where
  "getDistanceZ p1 p2 = \<bar>uint (pos_z p1) - uint (pos_z p2)\<bar>"

datatype Direction =
    DIRECTION_NORTH | DIRECTION_EAST | DIRECTION_SOUTH | DIRECTION_WEST
  | DIRECTION_SOUTHWEST | DIRECTION_SOUTHEAST | DIRECTION_NORTHWEST | DIRECTION_NORTHEAST

subsection \<open>Creatures as the monster observes them\<close>

type_synonym CreatureId = nat

type_synonym CreatureWeakPtr = "CreatureId option"

text \<open>What monster.cpp reads of another creature through its pointer.\<close>

record Creature =
  cr_health :: int
  cr_position :: Position
  cr_removed :: bool
  cr_attackable :: bool
  cr_inProtectionZone :: bool
  cr_player :: bool
  cr_monster :: bool
  cr_ignoredByMonsters :: bool
  cr_master :: "CreatureId option"

text \<open>
  The services the monster consults: the creature behind an identity, the base class's
  view-range test \<^verbatim>\<open>Creature::canSee(myPos, pos, 9, 9)\<close>, its invisibility test
  \<^verbatim>\<open>canSeeCreature\<close>, the map's line-of-sight and spectator queries, the partner
  relation between players; for walking, the position a step leads to
  (\<^verbatim>\<open>getNextPosition\<close>), the spawn zone test \<^verbatim>\<open>Spawns::isInZone\<close>, the walk cache, and
  whether the tile at a position exists, shows no creature on top and accepts the monster
  (\<^verbatim>\<open>getTile\<close>, \<^verbatim>\<open>getTopVisibleCreature\<close>, \<^verbatim>\<open>queryAdd\<close>); and the two static
  despawn settings of the class.
\<close>

record World =
  creatureOf :: "CreatureId \<Rightarrow> Creature"
  canSeePos :: "Position \<Rightarrow> Position \<Rightarrow> bool"
  canSeeCreature :: "CreatureId \<Rightarrow> bool"
  isSightClear :: "Position \<Rightarrow> Position \<Rightarrow> bool"
  getSpectators :: "Position \<Rightarrow> CreatureId list"
  isPartner :: "CreatureId \<Rightarrow> CreatureId \<Rightarrow> bool"
  getNextPosition :: "Direction \<Rightarrow> Position \<Rightarrow> Position"
  isInZone :: "Position \<Rightarrow> int \<Rightarrow> Position \<Rightarrow> bool"
  getWalkCache :: "Position \<Rightarrow> int"
  tileAccepts :: "Position \<Rightarrow> bool"
  despawnRadius :: int
  despawnRange :: int

subsection \<open>The monster's own state\<close>

record Condition =
  isAggressive :: bool

record Summon =
  registeredName :: string

record Monster =
  selfId :: CreatureId
  position :: Position
  health :: int
  removed :: bool
  master :: "CreatureId option"
  hasSpawn :: bool
  masterPos :: Position
  isIdle :: bool
  creatureCheck :: bool
  targetList :: "CreatureWeakPtr list"
  friendList :: "CreatureId set"
  conditions :: "Condition list"
  hasFollowPath :: bool
  followCreature :: "CreatureId option"
  attackedCreature :: "CreatureId option"
  attackTicks :: nat
  defenseTicks :: nat
  lastMeleeAttack :: int
  minCombatValue :: int
  maxCombatValue :: int
  summons :: "Summon list"
  stepDuration :: int

text \<open>A monster is a summon when it has a master.\<close>

definition isSummon :: "Monster \<Rightarrow> bool" where
  "isSummon m = (master m \<noteq> None)"

text \<open>\<^verbatim>\<open>Monster::canSee\<close>: the base class's test from the monster's own position.\<close>

definition canSee :: "World \<Rightarrow> Monster \<Rightarrow> Position \<Rightarrow> bool" where
  "canSee w m pos = canSeePos w (position m) pos"

subsection \<open>Friend and target lists\<close>

definition addFriend :: "CreatureId \<Rightarrow> Monster \<Rightarrow> Monster" where
  "addFriend creature m = m\<lparr>friendList := insert creature (friendList m)\<rparr>"

definition removeFriend :: "CreatureId \<Rightarrow> Monster \<Rightarrow> Monster" where
  "removeFriend creature m = m\<lparr>friendList := friendList m - {creature}\<rparr>"

text \<open>
  \<^verbatim>\<open>find_if\<close> over the target list looks for the first handle that locks to the given
  creature; \<^verbatim>\<open>erase(it)\<close> drops that one entry.
\<close>

definition addTarget :: "CreatureId \<Rightarrow> bool \<Rightarrow> Monster \<Rightarrow> Monster" where
  "addTarget creature pushFront m =
     (if Some creature \<notin> set (targetList m) then
        (if pushFront then m\<lparr>targetList := Some creature # targetList m\<rparr>
         else m\<lparr>targetList := targetList m @ [Some creature]\<rparr>)
      else m)"

definition removeTarget :: "CreatureId \<Rightarrow> Monster \<Rightarrow> Monster" where
  "removeTarget creature m =
     (if Some creature \<in> set (targetList m)
      then m\<lparr>targetList := remove1 (Some creature) (targetList m)\<rparr>
      else m)"

definition clearTargetList :: "Monster \<Rightarrow> Monster" where
  "clearTargetList m = m\<lparr>targetList := []\<rparr>"

definition clearFriendList :: "Monster \<Rightarrow> Monster" where
  "clearFriendList m = m\<lparr>friendList := {}\<rparr>"

definition onFollowCreatureComplete :: "CreatureId option \<Rightarrow> Monster \<Rightarrow> Monster" where
  "onFollowCreatureComplete creature m =
     (case creature of
        None \<Rightarrow> m
      | Some c \<Rightarrow>
          if Some c \<in> set (targetList m) then
            (let erased = remove1 (Some c) (targetList m) in
             if hasFollowPath m then m\<lparr>targetList := Some c # erased\<rparr>
             else if \<not> isSummon m then m\<lparr>targetList := erased @ [Some c]\<rparr>
             else m\<lparr>targetList := erased\<rparr>)
          else m)"

subsection \<open>Idle status\<close>

text \<open>
  \<^verbatim>\<open>setIdle\<close>. The game's list of creatures that are checked every tick is outside
  monster.cpp; the field \<open>creatureCheck\<close> records whether the monster is registered
  there (\<^verbatim>\<open>addCreatureCheck\<close> sets it, \<^verbatim>\<open>removeCreatureCheck\<close> clears it). The hook
  \<^verbatim>\<open>onIdleStatus\<close> of the base class touches none of the fields modelled here.
\<close>

definition setIdle :: "bool \<Rightarrow> Monster \<Rightarrow> Monster" where
  "setIdle idle m =
     (if removed m \<or> health m \<le> 0 then m
      else
        (let m1 = m\<lparr>isIdle := idle\<rparr> in
         if \<not> isIdle m1 then m1\<lparr>creatureCheck := True\<rparr>
         else (clearFriendList (clearTargetList m1))\<lparr>creatureCheck := False\<rparr>))"

definition updateIdleStatus :: "Monster \<Rightarrow> Monster" where
  "updateIdleStatus m =
     (let idle =
        (if \<not> isSummon m \<and> targetList m = []
         then find isAggressive (conditions m) = None
         else False)
      in setIdle idle m)"

text \<open>
  \<^verbatim>\<open>changeHealth\<close>: the base class's health change (outside monster.cpp) is an
  argument; it runs on the state that \<^verbatim>\<open>setIdle(false)\<close> left.
\<close>

definition changeHealth ::
  "(int \<Rightarrow> bool \<Rightarrow> Monster \<Rightarrow> Monster) \<Rightarrow> int \<Rightarrow> bool \<Rightarrow> Monster \<Rightarrow> Monster" where
  "changeHealth Creature_changeHealth healthChange sendHealthChange m =
     Creature_changeHealth healthChange sendHealthChange (setIdle False m)"

subsection \<open>Friend and opponent classification\<close>

definition isFriend :: "World \<Rightarrow> Monster \<Rightarrow> CreatureId \<Rightarrow> bool" where
  "isFriend w m creature =
     (if isSummon m \<and> cr_player (creatureOf w (the (master m))) then
        (let tmpPlayer =
           (if cr_player (creatureOf w creature) then Some creature
            else (case cr_master (creatureOf w creature) of
                    Some creatureMaster \<Rightarrow>
                      if cr_player (creatureOf w creatureMaster)
                      then Some creatureMaster else None
                  | None \<Rightarrow> None))
         in case tmpPlayer of
              Some p \<Rightarrow> Some p = master m \<or> isPartner w (the (master m)) p
            | None \<Rightarrow> False)
      else cr_monster (creatureOf w creature)
           \<and> cr_master (creatureOf w creature) = None)"

definition isOpponent :: "World \<Rightarrow> Monster \<Rightarrow> CreatureId \<Rightarrow> bool" where
  "isOpponent w m creature =
     (if isSummon m \<and> cr_player (creatureOf w (the (master m))) then
        Some creature \<noteq> master m
      else
        (cr_player (creatureOf w creature)
           \<and> \<not> cr_ignoredByMonsters (creatureOf w creature))
        \<or> (case cr_master (creatureOf w creature) of
              Some creatureMaster \<Rightarrow> cr_player (creatureOf w creatureMaster)
            | None \<Rightarrow> False))"

definition onCreatureFound :: "World \<Rightarrow> CreatureId option \<Rightarrow> bool \<Rightarrow> Monster \<Rightarrow> Monster" where
  "onCreatureFound w creature pushFront m =
     (case creature of
        None \<Rightarrow> m
      | Some c \<Rightarrow>
          if \<not> canSee w m (cr_position (creatureOf w c)) then m
          else
            (let m1 = (if isFriend w m c then addFriend c m else m);
                 m2 = (if isOpponent w m1 c then addTarget c pushFront m1 else m1)
             in updateIdleStatus m2))"





subsection \<open>Elemental modifiers in blockHit\<close>

datatype BlockType_t = BLOCK_NONE | BLOCK_DEFENSE | BLOCK_ARMOR | BLOCK_IMMUNITY

type_synonym CombatType_t = nat

text \<open>
  \<^verbatim>\<open>blockHit\<close>. The base class's verdict (block type and damage left) and the
  floating-point scaling \<^verbatim>\<open>static_cast<int32_t>(std::round(damage * ((100 - elementMod) / 100.)))\<close>
  are arguments: \<open>scaled damage elementMod\<close> stands for the rounded product.
\<close>

definition blockHit ::
  "BlockType_t \<times> int \<Rightarrow> (int \<Rightarrow> int \<Rightarrow> int) \<Rightarrow> (CombatType_t \<rightharpoonup> int) \<Rightarrow> CombatType_t
     \<Rightarrow> BlockType_t \<times> int" where
  "blockHit Creature_blockHit scaled elementMap combatType =
     (let blockType = fst Creature_blockHit; damage = snd Creature_blockHit in
      if damage \<noteq> 0 then
        (let elementMod = (case elementMap combatType of Some v \<Rightarrow> v | None \<Rightarrow> 0) in
         if elementMod \<noteq> 0 then
           (let damage' = scaled damage elementMod in
            if damage' \<le> 0 then (BLOCK_ARMOR, 0) else (blockType, damage'))
         else (blockType, damage))
      else (blockType, damage))"

subsection \<open>Species data\<close>

text \<open>
  The descriptors of monsters.h that monster.cpp reads. Chances, speeds, ranges and caps
  are unsigned 32-bit numbers; they are never added to or subtracted from here, so they
  are naturals.
\<close>

record spellBlock_t =
  sb_chance :: nat
  sb_speed :: nat
  sb_range :: nat
  sb_minCombatValue :: int
  sb_maxCombatValue :: int
  sb_isMelee :: bool

record summonBlock_t =
  smb_name :: string
  smb_chance :: nat
  smb_speed :: nat
  smb_max :: nat

record MonsterType =
  mt_isHostile :: bool
  mt_targetDistance :: int
  mt_attackSpells :: "spellBlock_t list"
  mt_defenseSpells :: "spellBlock_t list"
  mt_summons :: "summonBlock_t list"
  mt_maxSummons :: nat

text \<open>
  A remainder by zero is undefined behaviour in C++ and a dereference of a null attacked
  creature is a crash; both are results of the model, not values.
\<close>

datatype fault = DivisionByZero | NullAttackedCreature

subsection \<open>Attack range and spell cadence\<close>

text \<open>
  \<^verbatim>\<open>canUseAttack\<close>: the loop returns at the first block with a range that reaches the
  target, with the line-of-sight answer.
\<close>

fun canUseAttack_loop :: "World \<Rightarrow> Position \<Rightarrow> Position \<Rightarrow> nat \<Rightarrow> spellBlock_t list \<Rightarrow> bool" where
  "canUseAttack_loop w pos targetPos distance [] = False"
| "canUseAttack_loop w pos targetPos distance (spellBlock # rest) =
     (if sb_range spellBlock \<noteq> 0 \<and> distance \<le> sb_range spellBlock
      then isSightClear w pos targetPos
      else canUseAttack_loop w pos targetPos distance rest)"

definition canUseAttack :: "World \<Rightarrow> MonsterType \<Rightarrow> Position \<Rightarrow> CreatureId \<Rightarrow> bool" where
  "canUseAttack w mt pos target =
     (if mt_isHostile mt then
        (let targetPos = cr_position (creatureOf w target);
             distance = nat (max (getDistanceX pos targetPos) (getDistanceY pos targetPos))
         in canUseAttack_loop w pos targetPos distance (mt_attackSpells mt))
      else True)"

text \<open>
  What one attack phase reads from outside: the flee state (\<^verbatim>\<open>isFleeing\<close> is declared
  in monster.h), the clock \<^verbatim>\<open>OTSYS_TIME()\<close>, the chance roll drawn for the block at
  each index of the spell list, and whether the cast of that block makes the attacked
  creature disappear (the cast callback is outside monster.cpp; when the attacked creature
  goes, \<^verbatim>\<open>onAttackedCreatureDisappear\<close> zeroes \<open>attackTicks\<close>).
\<close>

record AttackEnv =
  ae_fleeing :: bool
  ae_now :: int
  ae_roll :: "nat \<Rightarrow> nat"
  ae_targetGone :: "nat \<Rightarrow> bool"

text \<open>
  \<^verbatim>\<open>canUseSpell\<close> returns its verdict with the two reference parameters
  \<open>inRange\<close> and \<open>resetTicks\<close>.
\<close>

definition canUseSpell ::
  "AttackEnv \<Rightarrow> Monster \<Rightarrow> Position \<Rightarrow> Position \<Rightarrow> spellBlock_t \<Rightarrow> nat \<Rightarrow> bool
     \<Rightarrow> fault + (bool \<times> bool \<times> bool)" where
  "canUseSpell e m pos targetPos sb interval resetTicks =
     (let rangeCheck =
        (if sb_range sb \<noteq> 0
            \<and> nat (max (getDistanceX pos targetPos) (getDistanceY pos targetPos)) > sb_range sb
         then (False, False) else (True, True))
      in
      if sb_isMelee sb then
        (if ae_fleeing e \<or> ae_now e - lastMeleeAttack m < int (sb_speed sb)
         then Inr (False, True, resetTicks)
         else Inr (fst rangeCheck, snd rangeCheck, resetTicks))
      else if sb_speed sb > attackTicks m then Inr (False, True, False)
      else if sb_speed sb = 0 then Inl DivisionByZero
      else if attackTicks m mod sb_speed sb \<ge> interval then Inr (False, True, resetTicks)
      else Inr (fst rangeCheck, snd rangeCheck, resetTicks))"

definition onAttackedCreatureDisappear :: "Monster \<Rightarrow> Monster" where
  "onAttackedCreatureDisappear m = m\<lparr>attackTicks := 0\<rparr>"

definition castAttackSpell :: "AttackEnv \<Rightarrow> nat \<Rightarrow> spellBlock_t \<Rightarrow> Monster \<Rightarrow> Monster" where
  "castAttackSpell e i spellBlock m =
     (let m1 = m\<lparr>minCombatValue := sb_minCombatValue spellBlock,
                 maxCombatValue := sb_maxCombatValue spellBlock\<rparr>;
          m2 = (if ae_targetGone e i
                then onAttackedCreatureDisappear (m1\<lparr>attackedCreature := None\<rparr>)
                else m1)
      in if sb_isMelee spellBlock then m2\<lparr>lastMeleeAttack := ae_now e\<rparr> else m2)"

text \<open>
  The loop of \<^verbatim>\<open>doAttacking\<close> over the attack spells, from the block at index \<open>i\<close>.
  Beside the state and \<open>resetTicks\<close> it returns, for every block it reached, whether
  \<^verbatim>\<open>canUseSpell\<close> let it through to its chance roll (a fire attempt). Turning to face
  the target changes nothing modelled here and is left out.
\<close>

fun doAttacking_loop ::
  "AttackEnv \<Rightarrow> Position \<Rightarrow> Position \<Rightarrow> nat \<Rightarrow> nat \<Rightarrow> spellBlock_t list \<Rightarrow> Monster \<Rightarrow> bool
     \<Rightarrow> bool list \<Rightarrow> fault + (Monster \<times> bool \<times> bool list)" where
  "doAttacking_loop e myPos targetPos interval i [] m resetTicks attempts =
     Inr (m, resetTicks, attempts)"
| "doAttacking_loop e myPos targetPos interval i (spellBlock # rest) m resetTicks attempts =
     (if attackedCreature m = None then Inr (m, resetTicks, attempts)
      else
        (case canUseSpell e m myPos targetPos spellBlock interval resetTicks of
           Inl f \<Rightarrow> Inl f
         | Inr (usable, inRange, resetTicks') \<Rightarrow>
             (let m1 = (if usable \<and> sb_chance spellBlock \<ge> ae_roll e i
                        then castAttackSpell e i spellBlock m else m);
                  m2 = (if \<not> inRange \<and> sb_isMelee spellBlock
                        then m1\<lparr>lastMeleeAttack := 0\<rparr> else m1)
              in doAttacking_loop e myPos targetPos interval (Suc i) rest m2 resetTicks'
                   (attempts @ [usable]))))"

definition doAttacking ::
  "World \<Rightarrow> MonsterType \<Rightarrow> AttackEnv \<Rightarrow> nat \<Rightarrow> Monster \<Rightarrow> fault + (Monster \<times> bool list)" where
  "doAttacking w mt e interval m =
     (case attackedCreature m of
        None \<Rightarrow> Inr (m, [])
      | Some attacked \<Rightarrow>
          if isSummon m \<and> attacked = selfId m then Inr (m, [])
          else
            (let resetTicks = (interval \<noteq> 0);
                 m0 = m\<lparr>attackTicks := (attackTicks m + interval) mod 2 ^ 32\<rparr>;
                 myPos = position m0;
                 targetPos = cr_position (creatureOf w attacked)
             in case doAttacking_loop e myPos targetPos interval 0 (mt_attackSpells mt)
                       m0 resetTicks [] of
                  Inl f \<Rightarrow> Inl f
                | Inr (m1, resetTicks', attempts) \<Rightarrow>
                    Inr (if resetTicks' then m1\<lparr>attackTicks := 0\<rparr> else m1, attempts)))"

text \<open>Whether the block at index \<open>i\<close> got a fire attempt in a phase with this log.\<close>

definition attempted :: "bool list \<Rightarrow> nat \<Rightarrow> bool" where
  "attempted attempts i = (i < length attempts \<and> attempts ! i)"

text \<open>
  For the cadence of a block with cooldown 2000 under ticks of 500: a phase is skipped
  when there is no attacked creature (or a summon attacks itself); \<open>windowPhase k a\<close>
  says that the tick counter \<open>a\<close> lies in the \<open>k\<close>-th quarter of a 2000 window or has
  not passed \<open>500 * k\<close> at all; \<open>sinceFire k m\<close> is what holds of the state \<open>k\<close> phases
  after a fire attempt of the block.
\<close>

definition attackSkipped :: "Monster \<Rightarrow> bool" where
  "attackSkipped m =
     (attackedCreature m = None \<or> (isSummon m \<and> attackedCreature m = Some (selfId m)))"

definition windowPhase :: "nat \<Rightarrow> nat \<Rightarrow> bool" where
  "windowPhase k a = (a \<le> 500 * k \<or> (500 * k \<le> a mod 2000 \<and> a mod 2000 < 500 * (k + 1)))"

definition sinceFire :: "nat \<Rightarrow> Monster \<Rightarrow> bool" where
  "sinceFire k m =
     (attackSkipped m \<or> (windowPhase k (attackTicks m) \<and> attackTicks m < 4294967296))"

subsection \<open>Defense spells and summons\<close>

text \<open>
  What \<^verbatim>\<open>onThinkDefense\<close> reads from outside: the rolls drawn for the defense block and
  for the summon block at each index, \<^verbatim>\<open>toLowerCaseString\<close>, the monster that
  \<^verbatim>\<open>Monster::createMonster\<close> builds for a species name (none for an unknown name) and
  whether the map places the summon of the block at an index. Binding the master appends
  the placed summon to the summoner's \<open>summons\<close>.
\<close>

record DefenseEnv =
  de_rollDefense :: "nat \<Rightarrow> nat"
  de_rollSummon :: "nat \<Rightarrow> nat"
  de_toLowerCaseString :: "string \<Rightarrow> string"
  de_createMonster :: "string \<Rightarrow> Summon option"
  de_placeCreature :: "nat \<Rightarrow> bool"

fun defenseSpells_loop ::
  "DefenseEnv \<Rightarrow> nat \<Rightarrow> nat \<Rightarrow> spellBlock_t list \<Rightarrow> Monster \<Rightarrow> bool \<Rightarrow> fault + (Monster \<times> bool)" where
  "defenseSpells_loop e interval i [] m resetTicks = Inr (m, resetTicks)"
| "defenseSpells_loop e interval i (spellBlock # rest) m resetTicks =
     (if sb_speed spellBlock > defenseTicks m
      then defenseSpells_loop e interval (Suc i) rest m False
      else if sb_speed spellBlock = 0 then Inl DivisionByZero
      else if defenseTicks m mod sb_speed spellBlock \<ge> interval
      then defenseSpells_loop e interval (Suc i) rest m resetTicks
      else if sb_chance spellBlock \<ge> de_rollDefense e i
      then defenseSpells_loop e interval (Suc i) rest
             (m\<lparr>minCombatValue := sb_minCombatValue spellBlock,
                maxCombatValue := sb_maxCombatValue spellBlock\<rparr>) resetTicks
      else defenseSpells_loop e interval (Suc i) rest m resetTicks)"

definition summonCount :: "DefenseEnv \<Rightarrow> summonBlock_t \<Rightarrow> Summon list \<Rightarrow> nat" where
  "summonCount e summonBlock ss =
     length (filter (\<lambda>summon. registeredName summon = de_toLowerCaseString e (smb_name summonBlock)) ss)"

text \<open>
  The loop over the summon blocks, from the block at index \<open>i\<close>. It returns the state,
  \<open>resetTicks\<close> and the summons it created, each with the index of its block.
\<close>

fun summons_loop ::
  "DefenseEnv \<Rightarrow> MonsterType \<Rightarrow> nat \<Rightarrow> nat \<Rightarrow> summonBlock_t list \<Rightarrow> Monster \<Rightarrow> bool
     \<Rightarrow> (nat \<times> Summon) list \<Rightarrow> fault + (Monster \<times> bool \<times> (nat \<times> Summon) list)" where
  "summons_loop e mt interval i [] m resetTicks created = Inr (m, resetTicks, created)"
| "summons_loop e mt interval i (summonBlock # rest) m resetTicks created =
     (if smb_speed summonBlock > defenseTicks m
      then summons_loop e mt interval (Suc i) rest m False created
      else if length (summons m) \<ge> mt_maxSummons mt
      then summons_loop e mt interval (Suc i) rest m resetTicks created
      else if smb_speed summonBlock = 0 then Inl DivisionByZero
      else if defenseTicks m mod smb_speed summonBlock \<ge> interval
      then summons_loop e mt interval (Suc i) rest m resetTicks created
      else if summonCount e summonBlock (summons m) \<ge> smb_max summonBlock
      then summons_loop e mt interval (Suc i) rest m resetTicks created
      else if smb_chance summonBlock < de_rollSummon e i
      then summons_loop e mt interval (Suc i) rest m resetTicks created
      else
        (case de_createMonster e (smb_name summonBlock) of
           None \<Rightarrow> summons_loop e mt interval (Suc i) rest m resetTicks created
         | Some summon \<Rightarrow>
             if de_placeCreature e i
             then summons_loop e mt interval (Suc i) rest
                    (m\<lparr>summons := summons m @ [summon]\<rparr>) resetTicks (created @ [(i, summon)])
             else summons_loop e mt interval (Suc i) rest m resetTicks created))"

definition summonPhase ::
  "DefenseEnv \<Rightarrow> MonsterType \<Rightarrow> nat \<Rightarrow> Monster \<Rightarrow> bool
     \<Rightarrow> fault + (Monster \<times> bool \<times> (nat \<times> Summon) list)" where
  "summonPhase e mt interval m resetTicks =
     (if \<not> isSummon m \<and> length (summons m) < mt_maxSummons mt \<and> hasFollowPath m
      then summons_loop e mt interval 0 (mt_summons mt) m resetTicks []
      else Inr (m, resetTicks, []))"

definition onThinkDefense ::
  "DefenseEnv \<Rightarrow> MonsterType \<Rightarrow> nat \<Rightarrow> Monster \<Rightarrow> fault + (Monster \<times> (nat \<times> Summon) list)" where
  "onThinkDefense e mt interval m =
     (let m0 = m\<lparr>defenseTicks := (defenseTicks m + interval) mod 2 ^ 32\<rparr> in
      case defenseSpells_loop e interval 0 (mt_defenseSpells mt) m0 True of
        Inl f \<Rightarrow> Inl f
      | Inr (m1, resetTicks) \<Rightarrow>
          (case summonPhase e mt interval m1 resetTicks of
             Inl f \<Rightarrow> Inl f
           | Inr (m2, resetTicks', created) \<Rightarrow>
               Inr (if resetTicks' then m2\<lparr>defenseTicks := 0\<rparr> else m2, created)))"

subsection \<open>Target selection\<close>




datatype TargetSearchType_t =
  TARGETSEARCH_DEFAULT | TARGETSEARCH_RANDOM | TARGETSEARCH_ATTACKRANGE | TARGETSEARCH_NEAREST










subsection \<open>Single steps\<close>

definition isInSpawnRange :: "World \<Rightarrow> Monster \<Rightarrow> Position \<Rightarrow> bool" where
  "isInSpawnRange w m pos =
     (if \<not> hasSpawn m then True
      else if despawnRadius w = 0 then True
      else if \<not> isInZone w (masterPos m) (despawnRadius w) pos then False
      else if despawnRange w = 0 then True
      else if getDistanceZ pos (masterPos m) > despawnRange w then False
      else True)"

definition canWalkTo :: "World \<Rightarrow> Monster \<Rightarrow> Position \<Rightarrow> Direction \<Rightarrow> bool" where
  "canWalkTo w m pos direction =
     (let pos' = getNextPosition w direction pos in
      if isInSpawnRange w m pos' then
        (if getWalkCache w pos' = 0 then False
         else if tileAccepts w pos' then True
         else False)
      else False)"

text \<open>
  The random number generator as the step functions use it: the shuffled list of
  directions (\<^verbatim>\<open>getShuffleDirections\<close>), the coin \<^verbatim>\<open>boolean_random\<close> (no path through
  \<^verbatim>\<open>getDistanceStep\<close> tosses it twice), and the element that a shuffle followed by a
  uniform index picks from a non-empty list of directions.
\<close>

record StepEnv =
  se_shuffleDirections :: "Direction list"
  se_boolean_random :: bool
  se_pickDirection :: "Direction list \<Rightarrow> Direction"

fun getRandomStep_loop ::
  "World \<Rightarrow> Monster \<Rightarrow> Position \<Rightarrow> Direction \<Rightarrow> Direction list \<Rightarrow> bool \<times> Direction" where
  "getRandomStep_loop w m creaturePos direction [] = (False, direction)"
| "getRandomStep_loop w m creaturePos direction (dir # rest) =
     (if canWalkTo w m creaturePos dir then (True, dir)
      else getRandomStep_loop w m creaturePos direction rest)"

definition getRandomStep ::
  "World \<Rightarrow> StepEnv \<Rightarrow> Monster \<Rightarrow> Position \<Rightarrow> Direction \<Rightarrow> bool \<times> Direction" where
  "getRandomStep w e m creaturePos direction =
     getRandomStep_loop w m creaturePos direction (se_shuffleDirections e)"

subsection \<open>The dance step\<close>

text \<open>\<^verbatim>\<open>std::max<uint32_t>\<close> converts both arguments to unsigned 32 bits first.\<close>

definition max_u32 :: "int \<Rightarrow> int \<Rightarrow> 32 word" where
  "max_u32 a b = max (word_of_int a) (word_of_int b)"

text \<open>
  The four blocks of \<^verbatim>\<open>getDanceStep\<close>, one per cardinal direction; each yields the
  direction it pushes on \<open>dirList\<close>, if any. \<open>canDoAttackNow\<close> is computed once by the
  caller.
\<close>

definition danceNorth ::
  "World \<Rightarrow> MonsterType \<Rightarrow> Monster \<Rightarrow> CreatureId \<Rightarrow> Position \<Rightarrow> bool \<Rightarrow> bool \<Rightarrow> bool \<Rightarrow> Direction list" where
  "danceNorth w mt m attacked creaturePos keepAttack keepDistance canDoAttackNow =
     (let centerPos = cr_position (creatureOf w attacked);
          offset_y = getOffsetY creaturePos centerPos;
          distance_x = \<bar>getOffsetX creaturePos centerPos\<bar>;
          distance_y = \<bar>offset_y\<bar>;
          centerToDist = max_u32 distance_x distance_y
      in
      if \<not> keepDistance \<or> offset_y \<ge> 0 then
        (let tmpDist = max_u32 distance_x \<bar>(getY creaturePos - 1) - getY centerPos\<bar> in
         if tmpDist = centerToDist \<and> canWalkTo w m creaturePos DIRECTION_NORTH then
           (let result =
              (if keepAttack then
                 (\<not> canDoAttackNow
                  \<or> canUseAttack w mt (creaturePos\<lparr>pos_y := pos_y creaturePos - 1\<rparr>) attacked)
               else True)
            in if result then [DIRECTION_NORTH] else [])
         else [])
      else [])"

definition danceSouth ::
  "World \<Rightarrow> MonsterType \<Rightarrow> Monster \<Rightarrow> CreatureId \<Rightarrow> Position \<Rightarrow> bool \<Rightarrow> bool \<Rightarrow> bool \<Rightarrow> Direction list" where
  "danceSouth w mt m attacked creaturePos keepAttack keepDistance canDoAttackNow =
     (let centerPos = cr_position (creatureOf w attacked);
          offset_y = getOffsetY creaturePos centerPos;
          distance_x = \<bar>getOffsetX creaturePos centerPos\<bar>;
          distance_y = \<bar>offset_y\<bar>;
          centerToDist = max_u32 distance_x distance_y
      in
      if \<not> keepDistance \<or> offset_y \<le> 0 then
        (let tmpDist = max_u32 distance_x \<bar>(getY creaturePos + 1) - getY centerPos\<bar> in
         if tmpDist = centerToDist \<and> canWalkTo w m creaturePos DIRECTION_SOUTH then
           (let result =
              (if keepAttack then
                 (\<not> canDoAttackNow
                  \<or> canUseAttack w mt (creaturePos\<lparr>pos_y := pos_y creaturePos + 1\<rparr>) attacked)
               else True)
            in if result then [DIRECTION_SOUTH] else [])
         else [])
      else [])"

definition danceEast ::
  "World \<Rightarrow> MonsterType \<Rightarrow> Monster \<Rightarrow> CreatureId \<Rightarrow> Position \<Rightarrow> bool \<Rightarrow> bool \<Rightarrow> bool \<Rightarrow> Direction list" where
  "danceEast w mt m attacked creaturePos keepAttack keepDistance canDoAttackNow =
     (let centerPos = cr_position (creatureOf w attacked);
          offset_x = getOffsetX creaturePos centerPos;
          distance_x = \<bar>offset_x\<bar>;
          distance_y = \<bar>getOffsetY creaturePos centerPos\<bar>;
          centerToDist = max_u32 distance_x distance_y
      in
      if \<not> keepDistance \<or> offset_x \<le> 0 then
        (let tmpDist = max_u32 \<bar>(getX creaturePos + 1) - getX centerPos\<bar> distance_y in
         if tmpDist = centerToDist \<and> canWalkTo w m creaturePos DIRECTION_EAST then
           (let result =
              (if keepAttack then
                 (\<not> canDoAttackNow
                  \<or> canUseAttack w mt (creaturePos\<lparr>pos_x := pos_x creaturePos + 1\<rparr>) attacked)
               else True)
            in if result then [DIRECTION_EAST] else [])
         else [])
      else [])"

definition danceWest ::
  "World \<Rightarrow> MonsterType \<Rightarrow> Monster \<Rightarrow> CreatureId \<Rightarrow> Position \<Rightarrow> bool \<Rightarrow> bool \<Rightarrow> bool \<Rightarrow> Direction list" where
  "danceWest w mt m attacked creaturePos keepAttack keepDistance canDoAttackNow =
     (let centerPos = cr_position (creatureOf w attacked);
          offset_x = getOffsetX creaturePos centerPos;
          distance_x = \<bar>offset_x\<bar>;
          distance_y = \<bar>getOffsetY creaturePos centerPos\<bar>;
          centerToDist = max_u32 distance_x distance_y
      in
      if \<not> keepDistance \<or> offset_x \<ge> 0 then
        (let tmpDist = max_u32 \<bar>(getX creaturePos - 1) - getX centerPos\<bar> distance_y in
         if tmpDist = centerToDist \<and> canWalkTo w m creaturePos DIRECTION_WEST then
           (let result =
              (if keepAttack then
                 (\<not> canDoAttackNow
                  \<or> canUseAttack w mt (creaturePos\<lparr>pos_x := pos_x creaturePos - 1\<rparr>) attacked)
               else True)
            in if result then [DIRECTION_WEST] else [])
         else [])
      else [])"

definition danceDirList ::
  "World \<Rightarrow> MonsterType \<Rightarrow> Monster \<Rightarrow> CreatureId \<Rightarrow> Position \<Rightarrow> bool \<Rightarrow> bool \<Rightarrow> Direction list" where
  "danceDirList w mt m attacked creaturePos keepAttack keepDistance =
     (let canDoAttackNow = canUseAttack w mt creaturePos attacked in
      danceNorth w mt m attacked creaturePos keepAttack keepDistance canDoAttackNow
      @ danceSouth w mt m attacked creaturePos keepAttack keepDistance canDoAttackNow
      @ danceEast w mt m attacked creaturePos keepAttack keepDistance canDoAttackNow
      @ danceWest w mt m attacked creaturePos keepAttack keepDistance canDoAttackNow)"

definition getDanceStep ::
  "World \<Rightarrow> MonsterType \<Rightarrow> StepEnv \<Rightarrow> Monster \<Rightarrow> Position \<Rightarrow> Direction \<Rightarrow> bool \<Rightarrow> bool
     \<Rightarrow> fault + (bool \<times> Direction)" where
  "getDanceStep w mt e m creaturePos direction keepAttack keepDistance =
     (case attackedCreature m of
        None \<Rightarrow> Inl NullAttackedCreature
      | Some attacked \<Rightarrow>
          (let dirList = danceDirList w mt m attacked creaturePos keepAttack keepDistance in
           if dirList \<noteq> [] then Inr (True, se_pickDirection e dirList)
           else Inr (False, direction)))"

text \<open>
  The unit offset of a direction in signed coordinates (north is towards smaller y, west
  towards smaller x, as the four blocks above compute) and the Chebyshev distance between
  two positions.
\<close>

fun directionOffset :: "Direction \<Rightarrow> int \<times> int" where
  "directionOffset DIRECTION_NORTH = (0, -1)"
| "directionOffset DIRECTION_SOUTH = (0, 1)"
| "directionOffset DIRECTION_EAST = (1, 0)"
| "directionOffset DIRECTION_WEST = (-1, 0)"
| "directionOffset DIRECTION_SOUTHWEST = (-1, 1)"
| "directionOffset DIRECTION_SOUTHEAST = (1, 1)"
| "directionOffset DIRECTION_NORTHWEST = (-1, -1)"
| "directionOffset DIRECTION_NORTHEAST = (1, -1)"

definition chebyshev :: "Position \<Rightarrow> Position \<Rightarrow> int" where
  "chebyshev p1 p2 = max (getDistanceX p1 p2) (getDistanceY p1 p2)"

text \<open>
  A step from \<open>pos\<close> in direction \<open>dir\<close> stays on the map when the world's
  \<^verbatim>\<open>getNextPosition\<close> leads to the neighbouring tile, that is, when the 16-bit coordinate
  does not wrap around at the border the step crosses.
\<close>

definition stepStaysOnMap :: "World \<Rightarrow> Direction \<Rightarrow> Position \<Rightarrow> bool" where
  "stepStaysOnMap w dir pos =
     (getX (getNextPosition w dir pos) = getX pos + fst (directionOffset dir)
      \<and> getY (getNextPosition w dir pos) = getY pos + snd (directionOffset dir))"

subsection \<open>The distance step\<close>

text \<open>
  \<^verbatim>\<open>getDistanceStep\<close> is one long function; its blocks are separate definitions here, in
  the order of the source. Each takes the walkability test of the monster's position
  (\<open>walk dir\<close> is \<^verbatim>\<open>canWalkTo(creaturePos, dir)\<close>), the coin, the flee flag and the
  direction the caller passed in, and returns the function's result with the direction
  it leaves in the reference parameter. A block that ends without assigning a direction
  returns the caller's.

  The target is diagonal to the monster: north-west, south-east, south-west, north-east.
\<close>

definition stepDiagonalNW :: "(Direction \<Rightarrow> bool) \<Rightarrow> bool \<Rightarrow> bool \<Rightarrow> Direction \<Rightarrow> bool \<times> Direction" where
  "stepDiagonalNW walk coin flee direction =
     (let s = walk DIRECTION_SOUTH; e = walk DIRECTION_EAST in
      if s \<and> e then (True, if coin then DIRECTION_SOUTH else DIRECTION_EAST)
      else if s then (True, DIRECTION_SOUTH)
      else if e then (True, DIRECTION_EAST)
      else if walk DIRECTION_SOUTHEAST then (True, DIRECTION_SOUTHEAST)
      else
        (let n = walk DIRECTION_NORTH; w = walk DIRECTION_WEST in
         if flee \<and> n \<and> w then (True, if coin then DIRECTION_NORTH else DIRECTION_WEST)
         else if flee \<and> n then (True, DIRECTION_NORTH)
         else if flee \<and> w then (True, DIRECTION_WEST)
         else if w \<and> walk DIRECTION_SOUTHWEST then (True, DIRECTION_WEST)
         else if n \<and> walk DIRECTION_NORTHEAST then (True, DIRECTION_NORTH)
         else (True, direction)))"

definition stepDiagonalSE :: "(Direction \<Rightarrow> bool) \<Rightarrow> bool \<Rightarrow> bool \<Rightarrow> Direction \<Rightarrow> bool \<times> Direction" where
  "stepDiagonalSE walk coin flee direction =
     (let w = walk DIRECTION_WEST; n = walk DIRECTION_NORTH in
      if w \<and> n then (True, if coin then DIRECTION_WEST else DIRECTION_NORTH)
      else if w then (True, DIRECTION_WEST)
      else if n then (True, DIRECTION_NORTH)
      else if walk DIRECTION_NORTHWEST then (True, DIRECTION_NORTHWEST)
      else
        (let s = walk DIRECTION_SOUTH; e = walk DIRECTION_EAST in
         if flee \<and> s \<and> e then (True, if coin then DIRECTION_SOUTH else DIRECTION_EAST)
         else if flee \<and> s then (True, DIRECTION_SOUTH)
         else if flee \<and> e then (True, DIRECTION_EAST)
         else if s \<and> walk DIRECTION_SOUTHWEST then (True, DIRECTION_SOUTH)
         else if e \<and> walk DIRECTION_NORTHEAST then (True, DIRECTION_EAST)
         else (True, direction)))"

definition stepDiagonalSW :: "(Direction \<Rightarrow> bool) \<Rightarrow> bool \<Rightarrow> bool \<Rightarrow> Direction \<Rightarrow> bool \<times> Direction" where
  "stepDiagonalSW walk coin flee direction =
     (let n = walk DIRECTION_NORTH; e = walk DIRECTION_EAST in
      if n \<and> e then (True, if coin then DIRECTION_NORTH else DIRECTION_EAST)
      else if n then (True, DIRECTION_NORTH)
      else if e then (True, DIRECTION_EAST)
      else if walk DIRECTION_NORTHEAST then (True, DIRECTION_NORTHEAST)
      else
        (let s = walk DIRECTION_SOUTH; w = walk DIRECTION_WEST in
         if flee \<and> s \<and> w then (True, if coin then DIRECTION_SOUTH else DIRECTION_WEST)
         else if flee \<and> s then (True, DIRECTION_SOUTH)
         else if flee \<and> w then (True, DIRECTION_WEST)
         else if w \<and> walk DIRECTION_NORTHWEST then (True, DIRECTION_WEST)
         else if s \<and> walk DIRECTION_SOUTHEAST then (True, DIRECTION_SOUTH)
         else (True, direction)))"

definition stepDiagonalNE :: "(Direction \<Rightarrow> bool) \<Rightarrow> bool \<Rightarrow> bool \<Rightarrow> Direction \<Rightarrow> bool \<times> Direction" where
  "stepDiagonalNE walk coin flee direction =
     (let w = walk DIRECTION_WEST; s = walk DIRECTION_SOUTH in
      if w \<and> s then (True, if coin then DIRECTION_WEST else DIRECTION_SOUTH)
      else if w then (True, DIRECTION_WEST)
      else if s then (True, DIRECTION_SOUTH)
      else if walk DIRECTION_SOUTHWEST then (True, DIRECTION_SOUTHWEST)
      else
        (let n = walk DIRECTION_NORTH; e = walk DIRECTION_EAST in
         if flee \<and> n \<and> e then (True, if coin then DIRECTION_NORTH else DIRECTION_EAST)
         else if flee \<and> n then (True, DIRECTION_NORTH)
         else if flee \<and> e then (True, DIRECTION_EAST)
         else if e \<and> walk DIRECTION_SOUTHEAST then (True, DIRECTION_EAST)
         else if n \<and> walk DIRECTION_NORTHWEST then (True, DIRECTION_NORTH)
         else (True, direction)))"

text \<open>
  The target is mainly to one side: to the north, south, west, east. Where the source
  leaves the switch with \<^verbatim>\<open>break\<close>, the function ends with \<^verbatim>\<open>return true\<close>.
\<close>

definition stepPlayerNorth ::
  "(Direction \<Rightarrow> bool) \<Rightarrow> bool \<Rightarrow> bool \<Rightarrow> int \<Rightarrow> Direction \<Rightarrow> bool \<times> Direction" where
  "stepPlayerNorth walk coin flee offsetx direction =
     (if walk DIRECTION_SOUTH then (True, DIRECTION_SOUTH)
      else
        (let w = walk DIRECTION_WEST; e = walk DIRECTION_EAST in
         if w \<and> e \<and> offsetx = 0 then (True, if coin then DIRECTION_WEST else DIRECTION_EAST)
         else if w \<and> offsetx \<le> 0 then (True, DIRECTION_WEST)
         else if e \<and> offsetx \<ge> 0 then (True, DIRECTION_EAST)
         else if flee \<and> w \<and> e then (True, if coin then DIRECTION_WEST else DIRECTION_EAST)
         else if flee \<and> w then (True, DIRECTION_WEST)
         else if flee \<and> e then (True, DIRECTION_EAST)
         else
           (let sw = walk DIRECTION_SOUTHWEST; se = walk DIRECTION_SOUTHEAST in
            if sw \<or> se then
              (if sw \<and> se then (True, if coin then DIRECTION_SOUTHWEST else DIRECTION_SOUTHEAST)
               else if w then (True, DIRECTION_WEST)
               else if sw then (True, DIRECTION_SOUTHWEST)
               else if e then (True, DIRECTION_EAST)
               else if se then (True, DIRECTION_SOUTHEAST)
               else (True, direction))
            else if flee \<and> walk DIRECTION_NORTH then (True, DIRECTION_NORTH)
            else (True, direction))))"

definition stepPlayerSouth ::
  "(Direction \<Rightarrow> bool) \<Rightarrow> bool \<Rightarrow> bool \<Rightarrow> int \<Rightarrow> Direction \<Rightarrow> bool \<times> Direction" where
  "stepPlayerSouth walk coin flee offsetx direction =
     (if walk DIRECTION_NORTH then (True, DIRECTION_NORTH)
      else
        (let w = walk DIRECTION_WEST; e = walk DIRECTION_EAST in
         if w \<and> e \<and> offsetx = 0 then (True, if coin then DIRECTION_WEST else DIRECTION_EAST)
         else if w \<and> offsetx \<le> 0 then (True, DIRECTION_WEST)
         else if e \<and> offsetx \<ge> 0 then (True, DIRECTION_EAST)
         else if flee \<and> w \<and> e then (True, if coin then DIRECTION_WEST else DIRECTION_EAST)
         else if flee \<and> w then (True, DIRECTION_WEST)
         else if flee \<and> e then (True, DIRECTION_EAST)
         else
           (let nw = walk DIRECTION_NORTHWEST; ne = walk DIRECTION_NORTHEAST in
            if nw \<or> ne then
              (if nw \<and> ne then (True, if coin then DIRECTION_NORTHWEST else DIRECTION_NORTHEAST)
               else if w then (True, DIRECTION_WEST)
               else if nw then (True, DIRECTION_NORTHWEST)
               else if e then (True, DIRECTION_EAST)
               else if ne then (True, DIRECTION_NORTHEAST)
               else (True, direction))
            else if flee \<and> walk DIRECTION_SOUTH then (True, DIRECTION_SOUTH)
            else (True, direction))))"

definition stepPlayerWest ::
  "(Direction \<Rightarrow> bool) \<Rightarrow> bool \<Rightarrow> bool \<Rightarrow> int \<Rightarrow> Direction \<Rightarrow> bool \<times> Direction" where
  "stepPlayerWest walk coin flee offsety direction =
     (if walk DIRECTION_EAST then (True, DIRECTION_EAST)
      else
        (let n = walk DIRECTION_NORTH; s = walk DIRECTION_SOUTH in
         if n \<and> s \<and> offsety = 0 then (True, if coin then DIRECTION_NORTH else DIRECTION_SOUTH)
         else if n \<and> offsety \<le> 0 then (True, DIRECTION_NORTH)
         else if s \<and> offsety \<ge> 0 then (True, DIRECTION_SOUTH)
         else if flee \<and> n \<and> s then (True, if coin then DIRECTION_NORTH else DIRECTION_SOUTH)
         else if flee \<and> n then (True, DIRECTION_NORTH)
         else if flee \<and> s then (True, DIRECTION_SOUTH)
         else
           (let se = walk DIRECTION_SOUTHEAST; ne = walk DIRECTION_NORTHEAST in
            if se \<or> ne then
              (if se \<and> ne then (True, if coin then DIRECTION_SOUTHEAST else DIRECTION_NORTHEAST)
               else if s then (True, DIRECTION_SOUTH)
               else if se then (True, DIRECTION_SOUTHEAST)
               else if n then (True, DIRECTION_NORTH)
               else if ne then (True, DIRECTION_NORTHEAST)
               else (True, direction))
            else if flee \<and> walk DIRECTION_WEST then (True, DIRECTION_WEST)
            else (True, direction))))"

definition stepPlayerEast ::
  "(Direction \<Rightarrow> bool) \<Rightarrow> bool \<Rightarrow> bool \<Rightarrow> int \<Rightarrow> Direction \<Rightarrow> bool \<times> Direction" where
  "stepPlayerEast walk coin flee offsety direction =
     (if walk DIRECTION_WEST then (True, DIRECTION_WEST)
      else
        (let n = walk DIRECTION_NORTH; s = walk DIRECTION_SOUTH in
         if n \<and> s \<and> offsety = 0 then (True, if coin then DIRECTION_NORTH else DIRECTION_SOUTH)
         else if n \<and> offsety \<le> 0 then (True, DIRECTION_NORTH)
         else if s \<and> offsety \<ge> 0 then (True, DIRECTION_SOUTH)
         else if flee \<and> n \<and> s then (True, if coin then DIRECTION_NORTH else DIRECTION_SOUTH)
         else if flee \<and> n then (True, DIRECTION_NORTH)
         else if flee \<and> s then (True, DIRECTION_SOUTH)
         else
           (let nw = walk DIRECTION_NORTHWEST; sw = walk DIRECTION_SOUTHWEST in
            if nw \<or> sw then
              (if nw \<and> sw then (True, if coin then DIRECTION_NORTHWEST else DIRECTION_SOUTHWEST)
               else if n then (True, DIRECTION_NORTH)
               else if nw then (True, DIRECTION_NORTHWEST)
               else if s then (True, DIRECTION_SOUTH)
               else if sw then (True, DIRECTION_SOUTHWEST)
               else (True, direction))
            else if flee \<and> walk DIRECTION_EAST then (True, DIRECTION_EAST)
            else (True, direction))))"

definition stepDurationUpdate :: "int \<Rightarrow> int \<Rightarrow> Monster \<Rightarrow> Monster" where
  "stepDurationUpdate dx dy m =
     (if dx \<le> 1 \<and> dy \<le> 1 then
        (if stepDuration m < 2 then m\<lparr>stepDuration := stepDuration m + 1\<rparr> else m)
      else if stepDuration m > 0 then m\<lparr>stepDuration := stepDuration m - 1\<rparr>
      else m)"

definition distanceStepCases ::
  "(Direction \<Rightarrow> bool) \<Rightarrow> bool \<Rightarrow> bool \<Rightarrow> int \<Rightarrow> int \<Rightarrow> int \<Rightarrow> int \<Rightarrow> Direction \<Rightarrow> bool \<times> Direction" where
  "distanceStepCases walk coin flee dx dy offsetx offsety direction =
     (if dx = dy \<and> offsetx \<ge> 1 \<and> offsety \<ge> 1 then stepDiagonalNW walk coin flee direction
      else if dx = dy \<and> offsetx \<le> -1 \<and> offsety \<le> -1 then stepDiagonalSE walk coin flee direction
      else if dx = dy \<and> offsetx \<ge> 1 \<and> offsety \<le> -1 then stepDiagonalSW walk coin flee direction
      else if dx = dy \<and> offsetx \<le> -1 \<and> offsety \<ge> 1 then stepDiagonalNE walk coin flee direction
      else if dy > dx then
        (if offsety < 0 then stepPlayerSouth walk coin flee offsetx direction
         else stepPlayerNorth walk coin flee offsetx direction)
      else
        (if offsetx < 0 then stepPlayerEast walk coin flee offsety direction
         else stepPlayerWest walk coin flee offsety direction))"

text \<open>
  \<^verbatim>\<open>getDistanceStep\<close> returns its result, the direction in the reference parameter and
  the state (the function adjusts \<open>stepDuration\<close>).
\<close>

definition getDistanceStep ::
  "World \<Rightarrow> MonsterType \<Rightarrow> StepEnv \<Rightarrow> Monster \<Rightarrow> Position \<Rightarrow> Direction \<Rightarrow> bool
     \<Rightarrow> bool \<times> Direction \<times> Monster" where
  "getDistanceStep w mt e m targetPos direction flee =
     (let creaturePos = position m;
          dx = getDistanceX creaturePos targetPos;
          dy = getDistanceY creaturePos targetPos;
          distance = max dx dy
      in
      if \<not> flee \<and> (distance > mt_targetDistance mt \<or> \<not> isSightClear w creaturePos targetPos)
      then (False, direction, m)
      else if \<not> flee \<and> distance = mt_targetDistance mt then (True, direction, m)
      else
        (let offsetx = getOffsetX creaturePos targetPos;
             offsety = getOffsetY creaturePos targetPos;
             m1 = stepDurationUpdate dx dy m
         in
         if offsetx = 0 \<and> offsety = 0 then
           (let r = getRandomStep w e m1 creaturePos direction in (fst r, snd r, m1))
         else
           (let r = distanceStepCases (canWalkTo w m1 creaturePos) (se_boolean_random e) flee
                      dx dy offsetx offsety direction
            in (fst r, snd r, m1))))"

subsection \<open>Example configurations\<close>

text \<open>
  Concrete inputs on which the theorems below are instantiated: the constructor
  \<^verbatim>\<open>Position(x, y, z)\<close>, a freshly constructed monster without spawn or master, a
  creature, and a world whose view range is the 9-tile window around the observer, whose
  line of sight is always clear, whose steps move one tile and whose tiles all accept
  the monster.
\<close>

definition mkPosition :: "int \<Rightarrow> int \<Rightarrow> int \<Rightarrow> Position" where
  "mkPosition a b c = \<lparr>pos_x = word_of_int a, pos_y = word_of_int b, pos_z = word_of_int c\<rparr>"

definition newMonster :: "CreatureId \<Rightarrow> Position \<Rightarrow> int \<Rightarrow> Monster" where
  "newMonster i p h =
     \<lparr>selfId = i, position = p, health = h, removed = False, master = None,
      hasSpawn = False, masterPos = p,
      isIdle = True, creatureCheck = False, targetList = [], friendList = {},
      conditions = [], hasFollowPath = False, followCreature = None,
      attackedCreature = None, attackTicks = 0, defenseTicks = 0, lastMeleeAttack = 0,
      minCombatValue = 0, maxCombatValue = 0, summons = [], stepDuration = 0\<rparr>"

definition newCreature :: "bool \<Rightarrow> int \<Rightarrow> Position \<Rightarrow> Creature" where
  "newCreature isPlayer h p =
     \<lparr>cr_health = h, cr_position = p, cr_removed = False, cr_attackable = True,
      cr_inProtectionZone = False, cr_player = isPlayer, cr_monster = (\<not> isPlayer),
      cr_ignoredByMonsters = False, cr_master = None\<rparr>"

definition stepPosition :: "Direction \<Rightarrow> Position \<Rightarrow> Position" where
  "stepPosition dir p =
     p\<lparr>pos_x := pos_x p + word_of_int (fst (directionOffset dir)),
       pos_y := pos_y p + word_of_int (snd (directionOffset dir))\<rparr>"

definition newWorld :: "(CreatureId \<Rightarrow> Creature) \<Rightarrow> CreatureId list \<Rightarrow> World" where
  "newWorld table spectators =
     \<lparr>creatureOf = table,
      canSeePos = (\<lambda>myPos pos. getDistanceX myPos pos \<le> 9 \<and> getDistanceY myPos pos \<le> 9),
      canSeeCreature = (\<lambda>_. True),
      isSightClear = (\<lambda>_ _. True),
      getSpectators = (\<lambda>_. spectators),
      isPartner = (\<lambda>_ _. False),
      getNextPosition = stepPosition,
      isInZone = (\<lambda>_ _ _. True),
      getWalkCache = (\<lambda>_. 1),
      tileAccepts = (\<lambda>_. True),
      despawnRadius = 0,
      despawnRange = 0\<rparr>"

definition exSummon :: Monster where
  "exSummon =
     (newMonster 1 (mkPosition 10 10 7) 100)\<lparr>master := Some 2, targetList := [Some 7, Some 8]\<rparr>"

definition exWild :: Monster where
  "exWild = (newMonster 1 (mkPosition 10 10 7) 100)\<lparr>targetList := [Some 7, Some 8]\<rparr>"

definition exTable :: "CreatureId \<Rightarrow> Creature" where
  "exTable i =
     (if i = 5 then newCreature True 60 (mkPosition 13 10 7)
      else if i = 7 then newCreature True 0 (mkPosition 11 10 7)
      else if i = 8 then (newCreature True 50 (mkPosition 12 10 7))\<lparr>cr_removed := True\<rparr>
      else if i = 9 then newCreature True 80 (mkPosition 15 12 7)
      else if i = 21 then newCreature True 70 (mkPosition 15 10 7)
      else if i = 22 then newCreature True 70 (mkPosition 13 10 7)
      else if i = 23 then newCreature True 70 (mkPosition 10 13 7)
      else if i = 31 then newCreature True 60 (mkPosition 13 0 7)
      else newCreature False 100 (mkPosition 100 100 7))"

definition exWorld :: "CreatureId list \<Rightarrow> World" where
  "exWorld spectators = newWorld exTable spectators"

definition exHunter :: Monster where
  "exHunter = (newMonster 1 (mkPosition 10 10 7) 100)\<lparr>targetList := [Some 7, Some 8, Some 9], isIdle := False\<rparr>"

definition exArcher :: MonsterType where
  "exArcher =
     \<lparr>mt_isHostile = True, mt_targetDistance = 4,
      mt_attackSpells =
        [\<lparr>sb_chance = 100, sb_speed = 2000, sb_range = 7, sb_minCombatValue = -10,
          sb_maxCombatValue = -20, sb_isMelee = False\<rparr>],
      mt_defenseSpells = [], mt_summons = [], mt_maxSummons = 0\<rparr>"

definition exAttackEnv :: AttackEnv where
  "exAttackEnv =
     \<lparr>ae_fleeing = False, ae_now = 100000, ae_roll = (\<lambda>_. 50), ae_targetGone = (\<lambda>_. False)\<rparr>"

definition exAttacker :: Monster where
  "exAttacker =
     (newMonster 1 (mkPosition 10 10 7) 100)\<lparr>targetList := [Some 9], isIdle := False,
        attackedCreature := Some 9, followCreature := Some 9\<rparr>"

definition exSummoner :: MonsterType where
  "exSummoner =
     \<lparr>mt_isHostile = True, mt_targetDistance = 1, mt_attackSpells = [], mt_defenseSpells = [],
      mt_summons = [\<lparr>smb_name = ''Rat'', smb_chance = 100, smb_speed = 1000, smb_max = 2\<rparr>],
      mt_maxSummons = 3\<rparr>"

definition exDefenseEnv :: DefenseEnv where
  "exDefenseEnv =
     \<lparr>de_rollDefense = (\<lambda>_. 1), de_rollSummon = (\<lambda>_. 1),
      de_toLowerCaseString = (\<lambda>name. if name = ''Rat'' then ''rat'' else name),
      de_createMonster = (\<lambda>_. Some \<lparr>registeredName = ''rat''\<rparr>),
      de_placeCreature = (\<lambda>_. True)\<rparr>"

definition exMaster :: Monster where
  "exMaster =
     (newMonster 1 (mkPosition 10 10 7) 100)\<lparr>targetList := [Some 9], isIdle := False,
        followCreature := Some 9, hasFollowPath := True,
        summons := [\<lparr>registeredName = ''rat''\<rparr>, \<lparr>registeredName = ''rat''\<rparr>]\<rparr>"

definition exStepEnv :: StepEnv where
  "exStepEnv =
     \<lparr>se_shuffleDirections = [DIRECTION_WEST, DIRECTION_NORTH, DIRECTION_EAST, DIRECTION_SOUTH],
      se_boolean_random = True, se_pickDirection = hd\<rparr>"

definition exDancer :: Monster where
  "exDancer =
     (newMonster 1 (mkPosition 10 10 7) 100)\<lparr>targetList := [Some 5], isIdle := False,
        attackedCreature := Some 5, followCreature := Some 5\<rparr>"



definition exWalledWorld :: World where
  "exWalledWorld = (exWorld [])\<lparr>tileAccepts := (\<lambda>_. False)\<rparr>"


definition exTwoBlocks :: MonsterType where
  "exTwoBlocks =
     \<lparr>mt_isHostile = True, mt_targetDistance = 1, mt_attackSpells = [], mt_defenseSpells = [],
      mt_summons = [\<lparr>smb_name = ''Rat'', smb_chance = 100, smb_speed = 1000, smb_max = 2\<rparr>,
                    \<lparr>smb_name = ''Rat'', smb_chance = 100, smb_speed = 1000, smb_max = 5\<rparr>],
      mt_maxSummons = 5\<rparr>"

definition exBorderDancer :: Monster where
  "exBorderDancer =
     (newMonster 1 (mkPosition 10 0 7) 100)\<lparr>targetList := [Some 31], isIdle := False,
        attackedCreature := Some 31, followCreature := Some 31\<rparr>"

section \<open>Properties\<close>

lemmas ex_defs = exTable_def exWorld_def newWorld_def newCreature_def newMonster_def mkPosition_def
  exWild_def exSummon_def exHunter_def canSee_def getDistanceX_def getDistanceY_def
  getOffsetX_def getOffsetY_def getX_def getY_def

lemma setIdle_alive:
  "\<not> removed m \<Longrightarrow> 0 < health m \<Longrightarrow>
   setIdle idle m =
     (if idle then m\<lparr>isIdle := True, targetList := [], friendList := {}, creatureCheck := False\<rparr>
      else m\<lparr>isIdle := False, creatureCheck := True\<rparr>)"
  by (simp add: setIdle_def Let_def clearTargetList_def clearFriendList_def)

lemma find_None_iff_all: "(find P xs = None) = (\<forall>x\<in>set xs. \<not> P x)"
  by (auto simp: find_None_iff)

subsection \<open>Requeueing a target when following it completes\<close>

text \<open>
  C1 (as the code has it). When \<^verbatim>\<open>onFollowCreatureComplete(C)\<close> runs for a creature C of
  the target list, C's entry is erased and then: put back at the front when a follow path
  still exists, for summons and non-summons alike; otherwise put back at the end for a
  non-summon and not put back for a summon (so that C is gone from a duplicate-free list).
\<close>

theorem onFollowCreatureComplete_requeue:
  assumes "Some c \<in> set (targetList m)"
  shows "targetList (onFollowCreatureComplete (Some c) m) =
           (if hasFollowPath m then Some c # remove1 (Some c) (targetList m)
            else if isSummon m then remove1 (Some c) (targetList m)
            else remove1 (Some c) (targetList m) @ [Some c])
         \<and> (distinct (targetList m) \<and> \<not> hasFollowPath m \<and> isSummon m
              \<longrightarrow> Some c \<notin> set (targetList (onFollowCreatureComplete (Some c) m)))"
  using assms by (simp add: onFollowCreatureComplete_def Let_def)

theorem onFollowCreatureComplete_requeue_witness:
  "targetList (onFollowCreatureComplete (Some 7) (exSummon\<lparr>hasFollowPath := True\<rparr>))
     = [Some 7, Some 8]
   \<and> targetList (onFollowCreatureComplete (Some 7) exSummon) = [Some 8]
   \<and> targetList (onFollowCreatureComplete (Some 7) exWild) = [Some 8, Some 7]"
proof -
  have h1: "Some 7 \<in> set (targetList (exSummon\<lparr>hasFollowPath := True\<rparr>))"
    by (simp add: exSummon_def newMonster_def)
  have h2: "Some 7 \<in> set (targetList exSummon)"
    by (simp add: exSummon_def newMonster_def)
  have h3: "Some 7 \<in> set (targetList exWild)"
    by (simp add: exWild_def newMonster_def)
  show ?thesis
    using onFollowCreatureComplete_requeue [OF h1] onFollowCreatureComplete_requeue [OF h2]
      onFollowCreatureComplete_requeue [OF h3]
    by (simp add: exSummon_def exWild_def newMonster_def isSummon_def)
qed

text \<open>
  Read without that distinction the sentence of the specification fails: a summon that
  still has a follow path gets the creature back, at the front of its target list.
\<close>

theorem summon_reinserted_counterexample:
  "isSummon (exSummon\<lparr>hasFollowPath := True\<rparr>)
   \<and> Some 7 \<in> set (targetList (exSummon\<lparr>hasFollowPath := True\<rparr>))
   \<and> Some 7 \<in> set (targetList
        (onFollowCreatureComplete (Some 7) (exSummon\<lparr>hasFollowPath := True\<rparr>)))"
  by (simp add: exSummon_def newMonster_def isSummon_def onFollowCreatureComplete_def)

subsection \<open>Reconciling the friend and target lists\<close>







subsection \<open>Attack cadence\<close>

lemma canUseSpell_ranged_gate:
  assumes "canUseSpell e m pos targetPos sb interval resetTicks = Inr (True, inRange, resetTicks')"
    and "\<not> sb_isMelee sb"
  shows "sb_speed sb \<le> attackTicks m \<and> attackTicks m mod sb_speed sb < interval"
  using assms by (auto simp: canUseSpell_def Let_def split: if_splits)

lemma castAttackSpell_ticks:
  "(attackedCreature m \<noteq> None \<longrightarrow> attackTicks m = t) \<Longrightarrow> attackTicks m = t \<or> attackTicks m = 0 \<Longrightarrow>
   (attackedCreature (castAttackSpell e i sb m) \<noteq> None \<longrightarrow> attackTicks (castAttackSpell e i sb m) = t)
   \<and> (attackTicks (castAttackSpell e i sb m) = t \<or> attackTicks (castAttackSpell e i sb m) = 0)"
  by (auto simp: castAttackSpell_def onAttackedCreatureDisappear_def Let_def)

lemma doAttacking_loop_inv:
  assumes "doAttacking_loop e myPos targetPos interval i bs m rt att = Inr (m', rt', att')"
    and "attackedCreature m \<noteq> None \<longrightarrow> attackTicks m = t"
    and "attackTicks m = t \<or> attackTicks m = 0"
  shows "\<exists>fl. att' = att @ fl \<and> length fl \<le> length bs
           \<and> (\<forall>j<length fl. fl ! j \<and> \<not> sb_isMelee (bs ! j)
                 \<longrightarrow> sb_speed (bs ! j) \<le> t \<and> t mod sb_speed (bs ! j) < interval)
           \<and> (attackTicks m' = t \<or> attackTicks m' = 0)"
  using assms
proof (induction bs arbitrary: i m rt att)
  case Nil
  then show ?case by auto
next
  case (Cons sb rest)
  show ?case
  proof (cases "attackedCreature m = None")
    case True
    then have "att' = att" "m' = m" using Cons.prems(1) by auto
    then show ?thesis using Cons.prems(3) by auto
  next
    case False
    then have tick: "attackTicks m = t" using Cons.prems(2) by simp
    obtain usable inRange rt1 where
      cus: "canUseSpell e m myPos targetPos sb interval rt = Inr (usable, inRange, rt1)"
      using Cons.prems(1) False by (auto split: sum.splits)
    define m1 where "m1 = (if usable \<and> sb_chance sb \<ge> ae_roll e i
                        then castAttackSpell e i sb m else m)"
    define m2 where "m2 = (if \<not> inRange \<and> sb_isMelee sb
                        then m1\<lparr>lastMeleeAttack := 0\<rparr> else m1)"
    have unf: "doAttacking_loop e myPos targetPos interval i (sb # rest) m rt att
                 = doAttacking_loop e myPos targetPos interval (Suc i) rest m2 rt1 (att @ [usable])"
      by (simp add: False cus m1_def m2_def Let_def)
    have rec: "doAttacking_loop e myPos targetPos interval (Suc i) rest m2 rt1 (att @ [usable])
                 = Inr (m', rt', att')"
      using Cons.prems(1) unf by simp
    have inv1: "(attackedCreature m1 \<noteq> None \<longrightarrow> attackTicks m1 = t)
                \<and> (attackTicks m1 = t \<or> attackTicks m1 = 0)"
      using castAttackSpell_ticks [of m t e i sb] Cons.prems(2,3) by (simp add: m1_def)
    then have inv2: "attackedCreature m2 \<noteq> None \<longrightarrow> attackTicks m2 = t"
      "attackTicks m2 = t \<or> attackTicks m2 = 0"
      by (auto simp: m2_def)
    from Cons.IH [OF rec inv2] obtain fl where
      fl: "att' = (att @ [usable]) @ fl" "length fl \<le> length rest"
        "\<forall>j<length fl. fl ! j \<and> \<not> sb_isMelee (rest ! j)
                 \<longrightarrow> sb_speed (rest ! j) \<le> t \<and> t mod sb_speed (rest ! j) < interval"
        "attackTicks m' = t \<or> attackTicks m' = 0"
      by blast
    have gate: "usable \<and> \<not> sb_isMelee sb \<longrightarrow> sb_speed sb \<le> t \<and> t mod sb_speed sb < interval"
      using canUseSpell_ranged_gate [of e m myPos targetPos sb interval rt inRange rt1] cus tick
      by auto
    have "\<forall>j<length (usable # fl). (usable # fl) ! j \<and> \<not> sb_isMelee ((sb # rest) ! j)
                 \<longrightarrow> sb_speed ((sb # rest) ! j) \<le> t \<and> t mod sb_speed ((sb # rest) ! j) < interval"
    proof (intro allI impI)
      fix j assume "j < length (usable # fl)"
        and "(usable # fl) ! j \<and> \<not> sb_isMelee ((sb # rest) ! j)"
      then show "sb_speed ((sb # rest) ! j) \<le> t \<and> t mod sb_speed ((sb # rest) ! j) < interval"
        using gate fl(3) by (cases j) auto
    qed
    then show ?thesis using fl(1,2,4) by (intro exI [of _ "usable # fl"]) auto
  qed
qed

lemma attackSkipped_call:
  "attackSkipped m \<Longrightarrow> doAttacking w mt e interval m = Inr (m, [])"
  by (auto simp: attackSkipped_def doAttacking_def split: option.splits)

lemma doAttacking_step:
  assumes "doAttacking w mt e interval m = Inr (m', attempts)"
    and "i < length (mt_attackSpells mt)" and "\<not> sb_isMelee (mt_attackSpells mt ! i)"
  shows "(attackSkipped m \<and> m' = m \<and> attempts = [])
         \<or> ((attackTicks m' = (attackTicks m + interval) mod 2 ^ 32 \<or> attackTicks m' = 0)
            \<and> (attempted attempts i \<longrightarrow>
                 sb_speed (mt_attackSpells mt ! i) \<le> (attackTicks m + interval) mod 2 ^ 32
                 \<and> ((attackTicks m + interval) mod 2 ^ 32) mod sb_speed (mt_attackSpells mt ! i) < interval))"
proof (cases "attackSkipped m")
  case True
  then show ?thesis using assms(1) attackSkipped_call [OF True, of w mt e interval] by simp
next
  case False
  then obtain attacked where att: "attackedCreature m = Some attacked"
    and ns: "\<not> (isSummon m \<and> attacked = selfId m)"
    by (auto simp: attackSkipped_def)
  define t where "t = (attackTicks m + interval) mod 2 ^ 32"
  define m0 where "m0 = m\<lparr>attackTicks := t\<rparr>"
  obtain m1 rt1 where
    loop: "doAttacking_loop e (position m0) (cr_position (creatureOf w attacked)) interval 0
             (mt_attackSpells mt) m0 (interval \<noteq> 0) [] = Inr (m1, rt1, attempts)"
    and res: "m' = (if rt1 then m1\<lparr>attackTicks := 0\<rparr> else m1)"
    using assms(1) att ns
    by (auto simp: doAttacking_def Let_def m0_def t_def split: sum.splits)
  have "attackedCreature m0 \<noteq> None \<longrightarrow> attackTicks m0 = t" "attackTicks m0 = t \<or> attackTicks m0 = 0"
    by (simp_all add: m0_def)
  from doAttacking_loop_inv [OF loop this] obtain fl where
    fl: "attempts = fl" "length fl \<le> length (mt_attackSpells mt)"
      "\<forall>j<length fl. fl ! j \<and> \<not> sb_isMelee (mt_attackSpells mt ! j)
           \<longrightarrow> sb_speed (mt_attackSpells mt ! j) \<le> t \<and> t mod sb_speed (mt_attackSpells mt ! j) < interval"
      "attackTicks m1 = t \<or> attackTicks m1 = 0"
    by auto
  have "attackTicks m' = t \<or> attackTicks m' = 0" using res fl(4) by auto
  moreover have "attempted attempts i \<longrightarrow>
       sb_speed (mt_attackSpells mt ! i) \<le> t \<and> t mod sb_speed (mt_attackSpells mt ! i) < interval"
    using fl(1,3) assms(3) by (auto simp: attempted_def)
  ultimately show ?thesis by (simp add: t_def)
qed

lemma windowPhase_fire: "2000 \<le> t \<Longrightarrow> t mod 2000 < 500 \<Longrightarrow> windowPhase 0 t"
  by (simp add: windowPhase_def)

lemma windowPhase_zero: "windowPhase k 0"
  by (simp add: windowPhase_def)

lemma windowPhase_advance:
  assumes "windowPhase k a" and "k \<le> 2"
  shows "windowPhase (Suc k) (a + 500)"
proof (cases "a \<le> 500 * k")
  case True
  then show ?thesis by (simp add: windowPhase_def)
next
  case False
  define r where "r = a mod 2000"
  have r: "500 * k \<le> r" "r < 500 * (k + 1)"
    using assms(1) False by (simp_all add: windowPhase_def r_def)
  have "r + 500 < 2000" using r(2) assms(2) by simp
  moreover have "(a + 500) mod 2000 = (r + 500) mod 2000"
    unfolding r_def by (simp add: mod_add_left_eq)
  ultimately have "(a + 500) mod 2000 = r + 500" by simp
  then show ?thesis using r by (simp add: windowPhase_def)
qed

lemma windowPhase_step:
  assumes "windowPhase k a" and "a < 4294967296" and "k \<le> 2"
  shows "windowPhase (Suc k) ((a + 500) mod 4294967296)"
proof (cases "a + 500 < 4294967296")
  case True
  then show ?thesis using windowPhase_advance [OF assms(1,3)] by simp
next
  case False
  then have "(a + 500) mod 4294967296 = (a + 500 - 4294967296) mod 4294967296"
    by (simp add: le_mod_geq)
  moreover have "a + 500 - 4294967296 < 500" using assms(2) by simp
  ultimately have "(a + 500) mod 4294967296 < 500" by simp
  then show ?thesis by (simp add: windowPhase_def)
qed

lemma windowPhase_no_fire:
  assumes "windowPhase k t" and "1 \<le> k" and "k \<le> 3"
  shows "\<not> (2000 \<le> t \<and> t mod 2000 < 500)"
  using assms by (auto simp: windowPhase_def)

lemma sinceFire_next:
  assumes "sinceFire k m" and "k \<le> 2"
    and "doAttacking w mt e 500 m = Inr (m', attempts)"
    and "i < length (mt_attackSpells mt)" and "\<not> sb_isMelee (mt_attackSpells mt ! i)"
    and "sb_speed (mt_attackSpells mt ! i) = 2000"
  shows "\<not> attempted attempts i \<and> sinceFire (Suc k) m'"
proof (cases "attackSkipped m")
  case True
  then have "m' = m \<and> attempts = []"
    using attackSkipped_call [OF True, of w mt e 500] assms(3) by simp
  then show ?thesis using True by (simp add: attempted_def sinceFire_def)
next
  case False
  then have inv: "windowPhase k (attackTicks m)" "attackTicks m < 4294967296"
    using assms(1) by (auto simp: sinceFire_def)
  define t where "t = (attackTicks m + 500) mod 4294967296"
  have ph: "windowPhase (Suc k) t"
    unfolding t_def using windowPhase_step [OF inv assms(2)] .
  have tb: "t < 4294967296" by (simp add: t_def)
  have step: "(attackTicks m' = t \<or> attackTicks m' = 0)
              \<and> (attempted attempts i \<longrightarrow> 2000 \<le> t \<and> t mod 2000 < 500)"
    using doAttacking_step [OF assms(3,4,5)] False assms(6) by (simp add: t_def)
  have nf: "\<not> (2000 \<le> t \<and> t mod 2000 < 500)"
    using windowPhase_no_fire [OF ph] assms(2) by simp
  have "windowPhase (Suc k) (attackTicks m') \<and> attackTicks m' < 4294967296"
    using step ph tb windowPhase_zero [of "Suc k"] by auto
  then show ?thesis using step nf by (auto simp: sinceFire_def)
qed

lemma sinceFire_start:
  assumes "doAttacking w mt e 500 m = Inr (m', attempts)"
    and "i < length (mt_attackSpells mt)" and "\<not> sb_isMelee (mt_attackSpells mt ! i)"
    and "sb_speed (mt_attackSpells mt ! i) = 2000"
    and "attempted attempts i"
  shows "sinceFire 0 m'"
proof -
  define t where "t = (attackTicks m + 500) mod 4294967296"
  have tb: "t < 4294967296" by (simp add: t_def)
  have ne: "attempts \<noteq> []" using assms(5) by (auto simp: attempted_def)
  have step: "(attackTicks m' = t \<or> attackTicks m' = 0) \<and> 2000 \<le> t \<and> t mod 2000 < 500"
    using doAttacking_step [OF assms(1,2,3)] ne assms(4,5) by (simp add: t_def)
  then have "windowPhase 0 t" using windowPhase_fire by simp
  then have "windowPhase 0 (attackTicks m') \<and> attackTicks m' < 4294967296"
    using step tb windowPhase_zero [of 0] by auto
  then show ?thesis by (simp add: sinceFire_def)
qed

text \<open>
  C3. A non-melee attack block is let through by \<^verbatim>\<open>canUseSpell\<close> only when
  \<open>attackTicks \<ge> speed\<close> and \<open>attackTicks mod speed < interval\<close>. Consequently, for a
  block with speed 2000, any four attack phases in a row with interval 500 (2000 ms of
  accumulation) give the block at most one fire attempt, whatever the other blocks, the
  rolls and the starting counter are.
\<close>

theorem attack_cadence:
  assumes "i < length (mt_attackSpells mt)" and "\<not> sb_isMelee (mt_attackSpells mt ! i)"
  shows "(canUseSpell e m pos targetPos (mt_attackSpells mt ! i) interval resetTicks
            = Inr (True, inRange, resetTicks')
          \<longrightarrow> sb_speed (mt_attackSpells mt ! i) \<le> attackTicks m
              \<and> attackTicks m mod sb_speed (mt_attackSpells mt ! i) < interval)
         \<and> (sb_speed (mt_attackSpells mt ! i) = 2000
            \<and> doAttacking w mt e1 500 m = Inr (m1, a1)
            \<and> doAttacking w mt e2 500 m1 = Inr (m2, a2)
            \<and> doAttacking w mt e3 500 m2 = Inr (m3, a3)
            \<and> doAttacking w mt e4 500 m3 = Inr (m4, a4)
          \<longrightarrow> length (filter (\<lambda>attempts. attempted attempts i) [a1, a2, a3, a4]) \<le> 1)"
proof (rule conjI; rule impI)
  assume "canUseSpell e m pos targetPos (mt_attackSpells mt ! i) interval resetTicks
            = Inr (True, inRange, resetTicks')"
  then show "sb_speed (mt_attackSpells mt ! i) \<le> attackTicks m
              \<and> attackTicks m mod sb_speed (mt_attackSpells mt ! i) < interval"
    using canUseSpell_ranged_gate assms(2) by blast
next
  assume h: "sb_speed (mt_attackSpells mt ! i) = 2000
            \<and> doAttacking w mt e1 500 m = Inr (m1, a1)
            \<and> doAttacking w mt e2 500 m1 = Inr (m2, a2)
            \<and> doAttacking w mt e3 500 m2 = Inr (m3, a3)
            \<and> doAttacking w mt e4 500 m3 = Inr (m4, a4)"
  then have sp: "sb_speed (mt_attackSpells mt ! i) = 2000"
    and c1: "doAttacking w mt e1 500 m = Inr (m1, a1)"
    and c2: "doAttacking w mt e2 500 m1 = Inr (m2, a2)"
    and c3: "doAttacking w mt e3 500 m2 = Inr (m3, a3)"
    and c4: "doAttacking w mt e4 500 m3 = Inr (m4, a4)"
    by simp_all
  have f1: "attempted a1 i \<Longrightarrow> \<not> attempted a2 i \<and> \<not> attempted a3 i \<and> \<not> attempted a4 i"
  proof -
    assume "attempted a1 i"
    then have s0: "sinceFire 0 m1" using sinceFire_start [OF c1 assms sp] by simp
    have s1: "\<not> attempted a2 i \<and> sinceFire (Suc 0) m2"
      using sinceFire_next [OF s0 _ c2 assms sp] by simp
    then have s2: "\<not> attempted a3 i \<and> sinceFire (Suc (Suc 0)) m3"
      using sinceFire_next [OF _ _ c3 assms sp, of "Suc 0"] by simp
    then have "\<not> attempted a4 i"
      using sinceFire_next [OF _ _ c4 assms sp, of "Suc (Suc 0)"] by simp
    then show ?thesis using s1 s2 by simp
  qed
  have f2: "attempted a2 i \<Longrightarrow> \<not> attempted a3 i \<and> \<not> attempted a4 i"
  proof -
    assume "attempted a2 i"
    then have s0: "sinceFire 0 m2" using sinceFire_start [OF c2 assms sp] by simp
    have s1: "\<not> attempted a3 i \<and> sinceFire (Suc 0) m3"
      using sinceFire_next [OF s0 _ c3 assms sp] by simp
    then have "\<not> attempted a4 i"
      using sinceFire_next [OF _ _ c4 assms sp, of "Suc 0"] by simp
    then show ?thesis using s1 by simp
  qed
  have f3: "attempted a3 i \<Longrightarrow> \<not> attempted a4 i"
  proof -
    assume "attempted a3 i"
    then have s0: "sinceFire 0 m3" using sinceFire_start [OF c3 assms sp] by simp
    show ?thesis using sinceFire_next [OF s0 _ c4 assms sp] by simp
  qed
  show "length (filter (\<lambda>attempts. attempted attempts i) [a1, a2, a3, a4]) \<le> 1"
    using f1 f2 f3 by auto
qed

theorem attack_cadence_witness:
  "doAttacking (exWorld [9]) exArcher exAttackEnv 500 exAttacker
     = Inr (exAttacker\<lparr>attackTicks := 500\<rparr>, [False])
   \<and> doAttacking (exWorld [9]) exArcher exAttackEnv 500 (exAttacker\<lparr>attackTicks := 500\<rparr>)
     = Inr (exAttacker\<lparr>attackTicks := 1000\<rparr>, [False])
   \<and> doAttacking (exWorld [9]) exArcher exAttackEnv 500 (exAttacker\<lparr>attackTicks := 1000\<rparr>)
     = Inr (exAttacker\<lparr>attackTicks := 1500\<rparr>, [False])
   \<and> doAttacking (exWorld [9]) exArcher exAttackEnv 500 (exAttacker\<lparr>attackTicks := 1500\<rparr>)
     = Inr (exAttacker\<lparr>attackTicks := 0, minCombatValue := -10, maxCombatValue := -20\<rparr>, [True])
   \<and> length (filter (\<lambda>attempts. attempted attempts 0) [[False], [False], [False], [True]]) \<le> 1"
proof -
  have h1: "0 < length (mt_attackSpells exArcher)" by (simp add: exArcher_def)
  have h2: "\<not> sb_isMelee (mt_attackSpells exArcher ! 0)" by (simp add: exArcher_def)
  have sp: "sb_speed (mt_attackSpells exArcher ! 0) = 2000" by (simp add: exArcher_def)
  have c1: "doAttacking (exWorld [9]) exArcher exAttackEnv 500 exAttacker
     = Inr (exAttacker\<lparr>attackTicks := 500\<rparr>, [False])"
    by (simp add: doAttacking_def canUseSpell_def castAttackSpell_def exArcher_def
        exAttackEnv_def exAttacker_def isSummon_def Let_def ex_defs)
  have c2: "doAttacking (exWorld [9]) exArcher exAttackEnv 500 (exAttacker\<lparr>attackTicks := 500\<rparr>)
     = Inr (exAttacker\<lparr>attackTicks := 1000\<rparr>, [False])"
    by (simp add: doAttacking_def canUseSpell_def castAttackSpell_def exArcher_def
        exAttackEnv_def exAttacker_def isSummon_def Let_def ex_defs)
  have c3: "doAttacking (exWorld [9]) exArcher exAttackEnv 500 (exAttacker\<lparr>attackTicks := 1000\<rparr>)
     = Inr (exAttacker\<lparr>attackTicks := 1500\<rparr>, [False])"
    by (simp add: doAttacking_def canUseSpell_def castAttackSpell_def exArcher_def
        exAttackEnv_def exAttacker_def isSummon_def Let_def ex_defs)
  have c4: "doAttacking (exWorld [9]) exArcher exAttackEnv 500 (exAttacker\<lparr>attackTicks := 1500\<rparr>)
     = Inr (exAttacker\<lparr>attackTicks := 0, minCombatValue := -10, maxCombatValue := -20\<rparr>, [True])"
    by (simp add: doAttacking_def canUseSpell_def castAttackSpell_def exArcher_def
        exAttackEnv_def exAttacker_def isSummon_def Let_def ex_defs)
  have "length (filter (\<lambda>attempts. attempted attempts 0) [[False], [False], [False], [True]]) \<le> 1"
    using attack_cadence [OF h1 h2, THEN conjunct2, rule_format, OF conjI [OF sp conjI [OF c1 conjI [OF c2 conjI [OF c3 c4]]]]]
    by simp
  then show ?thesis using c1 c2 c3 c4 by simp
qed

subsection \<open>Nearest-target search\<close>

















subsection \<open>The per-species summon cap\<close>

lemma summonCount_append: "summonCount e b ss \<le> summonCount e b (ss @ ts)"
  by (simp add: summonCount_def)

lemma summons_loop_created:
  assumes "summons_loop e mt interval i bs m rt created = Inr (m', rt', created')"
  shows "\<exists>new. created' = created @ new \<and> summons m' = summons m @ map snd new
           \<and> (\<forall>p\<in>set new. i \<le> fst p \<and> fst p < i + length bs
                 \<and> summonCount e (bs ! (fst p - i)) (summons m) < smb_max (bs ! (fst p - i)))"
  using assms
proof (induction bs arbitrary: i m rt created)
  case Nil
  then show ?case by auto
next
  case (Cons b rest)
  have skip: "\<exists>new. created' = created @ new \<and> summons m' = summons m @ map snd new
           \<and> (\<forall>p\<in>set new. i \<le> fst p \<and> fst p < i + length (b # rest)
                 \<and> summonCount e ((b # rest) ! (fst p - i)) (summons m)
                     < smb_max ((b # rest) ! (fst p - i)))"
    if rec: "summons_loop e mt interval (Suc i) rest m rt1 created = Inr (m', rt', created')" for rt1
  proof -
    from Cons.IH [OF rec] obtain new where
      n: "created' = created @ new" "summons m' = summons m @ map snd new"
        "\<forall>p\<in>set new. Suc i \<le> fst p \<and> fst p < Suc i + length rest
              \<and> summonCount e (rest ! (fst p - Suc i)) (summons m) < smb_max (rest ! (fst p - Suc i))"
      by blast
    have "\<forall>p\<in>set new. i \<le> fst p \<and> fst p < i + length (b # rest)
                 \<and> summonCount e ((b # rest) ! (fst p - i)) (summons m)
                     < smb_max ((b # rest) ! (fst p - i))"
    proof
      fix p assume p: "p \<in> set new"
      then have "Suc i \<le> fst p" using n(3) by blast
      then have "fst p - i = Suc (fst p - Suc i)" by arith
      then show "i \<le> fst p \<and> fst p < i + length (b # rest)
                 \<and> summonCount e ((b # rest) ! (fst p - i)) (summons m)
                     < smb_max ((b # rest) ! (fst p - i))"
        using n(3) p by auto
    qed
    then show ?thesis using n(1,2) by blast
  qed
  show ?case
  proof (cases "smb_speed b > defenseTicks m \<or> length (summons m) \<ge> mt_maxSummons mt
                \<or> defenseTicks m mod smb_speed b \<ge> interval
                \<or> summonCount e b (summons m) \<ge> smb_max b
                \<or> smb_chance b < de_rollSummon e i
                \<or> de_createMonster e (smb_name b) = None
                \<or> \<not> de_placeCreature e i")
    case True
    then obtain rt1 where
      "summons_loop e mt interval (Suc i) rest m rt1 created = Inr (m', rt', created')"
      using Cons.prems by (auto split: if_splits option.splits)
    then show ?thesis by (rule skip)
  next
    case False
    then obtain summon where cm: "de_createMonster e (smb_name b) = Some summon" by auto
    have nz: "smb_speed b \<noteq> 0"
      using Cons.prems False by (auto split: if_splits)
    have rec: "summons_loop e mt interval (Suc i) rest (m\<lparr>summons := summons m @ [summon]\<rparr>) rt
                 (created @ [(i, summon)]) = Inr (m', rt', created')"
      using Cons.prems False cm nz by (auto split: if_splits)
    from Cons.IH [OF rec] obtain new where
      n: "created' = (created @ [(i, summon)]) @ new"
        "summons m' = summons (m\<lparr>summons := summons m @ [summon]\<rparr>) @ map snd new"
        "\<forall>p\<in>set new. Suc i \<le> fst p \<and> fst p < Suc i + length rest
              \<and> summonCount e (rest ! (fst p - Suc i)) (summons (m\<lparr>summons := summons m @ [summon]\<rparr>))
                  < smb_max (rest ! (fst p - Suc i))"
      by blast
    have here: "summonCount e b (summons m) < smb_max b" using False by simp
    have "\<forall>p\<in>set ((i, summon) # new). i \<le> fst p \<and> fst p < i + length (b # rest)
                 \<and> summonCount e ((b # rest) ! (fst p - i)) (summons m)
                     < smb_max ((b # rest) ! (fst p - i))"
    proof
      fix p assume p: "p \<in> set ((i, summon) # new)"
      show "i \<le> fst p \<and> fst p < i + length (b # rest)
                 \<and> summonCount e ((b # rest) ! (fst p - i)) (summons m)
                     < smb_max ((b # rest) ! (fst p - i))"
      proof (cases "p = (i, summon)")
        case True
        then show ?thesis using here by simp
      next
        case False
        then have pn: "p \<in> set new" using p by simp
        then have le: "Suc i \<le> fst p" using n(3) by blast
        then have idx: "fst p - i = Suc (fst p - Suc i)" by arith
        have "summonCount e (rest ! (fst p - Suc i)) (summons m)
                \<le> summonCount e (rest ! (fst p - Suc i)) (summons m @ [summon])"
          by (rule summonCount_append)
        then show ?thesis using n(3) pn idx le by fastforce
      qed
    qed
    then show ?thesis using n(1,2) by (intro exI [of _ "(i, summon) # new"]) simp
  qed
qed

lemma defenseSpells_loop_summons:
  "defenseSpells_loop e interval i bs m rt = Inr (m', rt')
   \<Longrightarrow> summons m' = summons m"
  by (induction bs arbitrary: i m rt) (auto split: if_splits)

text \<open>
  C5 (as the code has it). The cap is tested block by block. In the summon phase of
  \<^verbatim>\<open>onThinkDefense\<close>, a summon block for which the number of live summons whose
  registered name equals the block's lower-cased species name has reached the block's
  \<open>max\<close> creates no summon, whatever the rolls, the registry and the map answer; the
  summons list grows by exactly the summons that the other blocks created.
\<close>

theorem summon_cap_respected:
  assumes "i < length (mt_summons mt)"
    and "smb_max (mt_summons mt ! i) \<le> summonCount e (mt_summons mt ! i) (summons m)"
    and "onThinkDefense e mt interval m = Inr (m', created)"
  shows "i \<notin> fst ` set created \<and> summons m' = summons m @ map snd created"
proof -
  define m0 where "m0 = m\<lparr>defenseTicks := (defenseTicks m + interval) mod 2 ^ 32\<rparr>"
  obtain m1 rt1 m2 rt2 where
    d: "defenseSpells_loop e interval 0 (mt_defenseSpells mt) m0 True = Inr (m1, rt1)"
    and s: "summonPhase e mt interval m1 rt1 = Inr (m2, rt2, created)"
    and r: "m' = (if rt2 then m2\<lparr>defenseTicks := 0\<rparr> else m2)"
    using assms(3) by (auto simp: onThinkDefense_def Let_def m0_def split: sum.splits)
  have s1: "summons m1 = summons m"
    using defenseSpells_loop_summons [OF d] by (simp add: m0_def)
  have "i \<notin> fst ` set created \<and> summons m2 = summons m1 @ map snd created"
  proof (cases "\<not> isSummon m1 \<and> length (summons m1) < mt_maxSummons mt \<and> hasFollowPath m1")
    case False
    then show ?thesis using s by (auto simp: summonPhase_def)
  next
    case True
    then have "summons_loop e mt interval 0 (mt_summons mt) m1 rt1 [] = Inr (m2, rt2, created)"
      using s by (simp add: summonPhase_def)
    from summons_loop_created [OF this] have
      n: "summons m2 = summons m1 @ map snd created"
        "\<forall>p\<in>set created. summonCount e (mt_summons mt ! fst p) (summons m1) < smb_max (mt_summons mt ! fst p)"
      by auto
    have "i \<notin> fst ` set created"
    proof
      assume "i \<in> fst ` set created"
      then obtain p where "p \<in> set created" "fst p = i" by auto
      then have "summonCount e (mt_summons mt ! i) (summons m1) < smb_max (mt_summons mt ! i)"
        using n(2) by auto
      then show False using assms(2) s1 by simp
    qed
    then show ?thesis using n(1) by simp
  qed
  then show ?thesis using r s1 by auto
qed

theorem summon_cap_respected_witness:
  "onThinkDefense exDefenseEnv exSummoner 1000 exMaster = Inr (exMaster, [])
   \<and> 0 \<notin> fst ` set ([] :: (nat \<times> Summon) list)"
proof -
  have h1: "0 < length (mt_summons exSummoner)" by (simp add: exSummoner_def)
  have h2: "smb_max (mt_summons exSummoner ! 0)
              \<le> summonCount exDefenseEnv (mt_summons exSummoner ! 0) (summons exMaster)"
    by (simp add: exSummoner_def exDefenseEnv_def exMaster_def summonCount_def)
  have h3: "onThinkDefense exDefenseEnv exSummoner 1000 exMaster = Inr (exMaster, [])"
    by (simp add: onThinkDefense_def summonPhase_def summonCount_def exSummoner_def
        exDefenseEnv_def exMaster_def newMonster_def isSummon_def Let_def)
  show ?thesis using summon_cap_respected [OF h1 h2 h3] h3 by simp
qed

text \<open>
  Read for the species instead of the block the sentence of the specification fails:
  with two blocks for the same species, caps 2 and 5, and two live summons of it, the
  first block is at its cap and the second one creates a third summon of the species.
\<close>

theorem summon_second_block_counterexample:
  "smb_max (mt_summons exTwoBlocks ! 0)
     \<le> summonCount exDefenseEnv (mt_summons exTwoBlocks ! 0) (summons exMaster)
   \<and> onThinkDefense exDefenseEnv exTwoBlocks 1000 exMaster
       = Inr (exMaster\<lparr>summons := [\<lparr>registeredName = ''rat''\<rparr>, \<lparr>registeredName = ''rat''\<rparr>,
                                      \<lparr>registeredName = ''rat''\<rparr>]\<rparr>,
              [(1, \<lparr>registeredName = ''rat''\<rparr>)])
   \<and> registeredName \<lparr>registeredName = ''rat''\<rparr>
       = de_toLowerCaseString exDefenseEnv (smb_name (mt_summons exTwoBlocks ! 0))"
  by (simp add: onThinkDefense_def summonPhase_def summonCount_def exTwoBlocks_def
      exDefenseEnv_def exMaster_def newMonster_def isSummon_def Let_def)

subsection \<open>When the distance step fails\<close>

lemma stepDiagonal_true:
  "fst (stepDiagonalNW walk coin flee direction)"
  "fst (stepDiagonalSE walk coin flee direction)"
  "fst (stepDiagonalSW walk coin flee direction)"
  "fst (stepDiagonalNE walk coin flee direction)"
  by (simp_all add: stepDiagonalNW_def stepDiagonalSE_def stepDiagonalSW_def stepDiagonalNE_def
      Let_def)

lemma stepPlayer_true:
  "fst (stepPlayerNorth walk coin flee off direction)"
  "fst (stepPlayerSouth walk coin flee off direction)"
  "fst (stepPlayerWest walk coin flee off direction)"
  "fst (stepPlayerEast walk coin flee off direction)"
  by (simp_all add: stepPlayerNorth_def stepPlayerSouth_def stepPlayerWest_def stepPlayerEast_def
      Let_def)

lemma distanceStepCases_true:
  "fst (distanceStepCases walk coin flee dx dy offsetx offsety direction)"
  by (simp add: distanceStepCases_def stepDiagonal_true stepPlayer_true)

lemma stepDiagonal_blocked:
  assumes "\<forall>dir. \<not> walk dir"
  shows "stepDiagonalNW walk coin flee direction = (True, direction)"
    "stepDiagonalSE walk coin flee direction = (True, direction)"
    "stepDiagonalSW walk coin flee direction = (True, direction)"
    "stepDiagonalNE walk coin flee direction = (True, direction)"
  using assms
  by (simp_all add: stepDiagonalNW_def stepDiagonalSE_def stepDiagonalSW_def stepDiagonalNE_def)

lemma stepPlayer_blocked:
  assumes "\<forall>dir. \<not> walk dir"
  shows "stepPlayerNorth walk coin flee off direction = (True, direction)"
    "stepPlayerSouth walk coin flee off direction = (True, direction)"
    "stepPlayerWest walk coin flee off direction = (True, direction)"
    "stepPlayerEast walk coin flee off direction = (True, direction)"
  using assms
  by (simp_all add: stepPlayerNorth_def stepPlayerSouth_def stepPlayerWest_def stepPlayerEast_def)

lemma distanceStepCases_blocked:
  assumes "\<forall>dir. \<not> walk dir"
  shows "distanceStepCases walk coin flee dx dy offsetx offsety direction = (True, direction)"
  using stepDiagonal_blocked [OF assms] stepPlayer_blocked [OF assms]
  by (simp add: distanceStepCases_def)

lemma canWalkTo_stepDuration:
  "canWalkTo w (stepDurationUpdate dx dy m) pos dir = canWalkTo w m pos dir"
  by (simp add: canWalkTo_def isInSpawnRange_def stepDurationUpdate_def)

lemma getRandomStep_loop_true:
  "fst (getRandomStep_loop w m creaturePos direction dirs)
     \<longleftrightarrow> (\<exists>dir\<in>set dirs. canWalkTo w m creaturePos dir)"
  by (induction dirs) auto

text \<open>
  C6 (as the code has it). \<^verbatim>\<open>getDistanceStep\<close> returns false exactly when either it is not
  fleeing and the Chebyshev distance exceeds the species target distance or the line of
  sight is blocked, or the target stands on the monster's own tile (both offsets zero,
  past the two early exits) and the random step it then falls back on finds no walkable
  direction. In every other case it returns true; in particular when the target is on
  another tile and no direction at all is walkable, it returns true and leaves the
  caller's direction unassigned.
\<close>

theorem getDistanceStep_result:
  "(fst (getDistanceStep w mt e m targetPos direction flee) = False
      \<longleftrightarrow> (\<not> flee \<and> (chebyshev (position m) targetPos > mt_targetDistance mt
                      \<or> \<not> isSightClear w (position m) targetPos))
          \<or> (\<not> (\<not> flee \<and> chebyshev (position m) targetPos = mt_targetDistance mt)
              \<and> getOffsetX (position m) targetPos = 0 \<and> getOffsetY (position m) targetPos = 0
              \<and> (\<forall>dir\<in>set (se_shuffleDirections e). \<not> canWalkTo w m (position m) dir)))
   \<and> ((flee \<or> (chebyshev (position m) targetPos < mt_targetDistance mt
               \<and> isSightClear w (position m) targetPos))
       \<and> (getOffsetX (position m) targetPos \<noteq> 0 \<or> getOffsetY (position m) targetPos \<noteq> 0)
       \<and> (\<forall>dir. \<not> canWalkTo w m (position m) dir)
      \<longrightarrow> fst (getDistanceStep w mt e m targetPos direction flee)
          \<and> fst (snd (getDistanceStep w mt e m targetPos direction flee)) = direction)"
proof (rule conjI)
  show "fst (getDistanceStep w mt e m targetPos direction flee) = False
      \<longleftrightarrow> (\<not> flee \<and> (chebyshev (position m) targetPos > mt_targetDistance mt
                      \<or> \<not> isSightClear w (position m) targetPos))
          \<or> (\<not> (\<not> flee \<and> chebyshev (position m) targetPos = mt_targetDistance mt)
              \<and> getOffsetX (position m) targetPos = 0 \<and> getOffsetY (position m) targetPos = 0
              \<and> (\<forall>dir\<in>set (se_shuffleDirections e). \<not> canWalkTo w m (position m) dir))"
    by (auto simp: getDistanceStep_def Let_def chebyshev_def getRandomStep_def
        getRandomStep_loop_true canWalkTo_stepDuration distanceStepCases_true)
next
  show "(flee \<or> (chebyshev (position m) targetPos < mt_targetDistance mt
               \<and> isSightClear w (position m) targetPos))
       \<and> (getOffsetX (position m) targetPos \<noteq> 0 \<or> getOffsetY (position m) targetPos \<noteq> 0)
       \<and> (\<forall>dir. \<not> canWalkTo w m (position m) dir)
      \<longrightarrow> fst (getDistanceStep w mt e m targetPos direction flee)
          \<and> fst (snd (getDistanceStep w mt e m targetPos direction flee)) = direction"
  proof
    assume h: "(flee \<or> (chebyshev (position m) targetPos < mt_targetDistance mt
               \<and> isSightClear w (position m) targetPos))
       \<and> (getOffsetX (position m) targetPos \<noteq> 0 \<or> getOffsetY (position m) targetPos \<noteq> 0)
       \<and> (\<forall>dir. \<not> canWalkTo w m (position m) dir)"
    define m1 where "m1 = stepDurationUpdate (getDistanceX (position m) targetPos)
                            (getDistanceY (position m) targetPos) m"
    have blocked: "\<forall>dir. \<not> canWalkTo w m1 (position m) dir"
      using h by (simp add: m1_def canWalkTo_stepDuration)
    have c: "distanceStepCases (canWalkTo w m1 (position m)) (se_boolean_random e) flee
               (getDistanceX (position m) targetPos) (getDistanceY (position m) targetPos)
               (getOffsetX (position m) targetPos) (getOffsetY (position m) targetPos) direction
             = (True, direction)"
      by (rule distanceStepCases_blocked [OF blocked])
    show "fst (getDistanceStep w mt e m targetPos direction flee)
          \<and> fst (snd (getDistanceStep w mt e m targetPos direction flee)) = direction"
      using h c by (auto simp: getDistanceStep_def Let_def chebyshev_def m1_def)
  qed
qed

theorem getDistanceStep_result_witness:
  "getDistanceStep (exWorld [5]) exArcher exStepEnv exDancer (mkPosition 13 10 7) DIRECTION_NORTH False
     = (True, DIRECTION_WEST, exDancer)
   \<and> getDistanceStep exWalledWorld exArcher exStepEnv exDancer (mkPosition 13 10 7) DIRECTION_NORTH False
     = (True, DIRECTION_NORTH, exDancer)"
proof -
  have a: "getDistanceStep (exWorld [5]) exArcher exStepEnv exDancer (mkPosition 13 10 7)
             DIRECTION_NORTH False = (True, DIRECTION_WEST, exDancer)"
    by (simp add: getDistanceStep_def distanceStepCases_def stepPlayerEast_def canWalkTo_def
        isInSpawnRange_def stepDurationUpdate_def stepPosition_def exStepEnv_def exDancer_def
        exArcher_def ex_defs Let_def)
  have b: "getDistanceStep exWalledWorld exArcher exStepEnv exDancer (mkPosition 13 10 7)
             DIRECTION_NORTH False = (True, DIRECTION_NORTH, exDancer)"
    by (simp add: getDistanceStep_def distanceStepCases_def stepPlayerEast_def canWalkTo_def
        isInSpawnRange_def stepDurationUpdate_def stepPosition_def exStepEnv_def exDancer_def
        exWalledWorld_def exArcher_def ex_defs Let_def)
  have h: "(False \<or> (chebyshev (position exDancer) (mkPosition 13 10 7) < mt_targetDistance exArcher
               \<and> isSightClear exWalledWorld (position exDancer) (mkPosition 13 10 7)))
       \<and> (getOffsetX (position exDancer) (mkPosition 13 10 7) \<noteq> 0
          \<or> getOffsetY (position exDancer) (mkPosition 13 10 7) \<noteq> 0)
       \<and> (\<forall>dir. \<not> canWalkTo exWalledWorld exDancer (position exDancer) dir)"
    by (simp add: chebyshev_def canWalkTo_def isInSpawnRange_def exWalledWorld_def exDancer_def
        exArcher_def ex_defs)
  have "fst (getDistanceStep exWalledWorld exArcher exStepEnv exDancer (mkPosition 13 10 7)
               DIRECTION_NORTH False)
        \<and> fst (snd (getDistanceStep exWalledWorld exArcher exStepEnv exDancer (mkPosition 13 10 7)
               DIRECTION_NORTH False)) = DIRECTION_NORTH"
    using getDistanceStep_result [of exWalledWorld exArcher exStepEnv exDancer "mkPosition 13 10 7"
        DIRECTION_NORTH False, THEN conjunct2] h by blast
  then show ?thesis using a b by simp
qed

text \<open>
  With the first case alone the sentence of the specification fails: fleeing from a target
  on the monster's own tile with every neighbouring tile refusing the monster, the
  function returns false.
\<close>

theorem getDistanceStep_flee_false_counterexample:
  "fst (getDistanceStep exWalledWorld exArcher exStepEnv exDancer (mkPosition 10 10 7)
          DIRECTION_NORTH True) = False"
  by (simp add: getDistanceStep_def getRandomStep_def canWalkTo_def isInSpawnRange_def
      stepDurationUpdate_def exWalledWorld_def exStepEnv_def exDancer_def exArcher_def ex_defs Let_def)

subsection \<open>The dance step keeps the distance\<close>

lemma getX_bounds: "0 \<le> getX p \<and> getX p < 65536"
  using uint_lt2p [of "pos_x p"] by (simp add: getX_def)

lemma getY_bounds: "0 \<le> getY p \<and> getY p < 65536"
  using uint_lt2p [of "pos_y p"] by (simp add: getY_def)

lemma uint_u32: "0 \<le> a \<Longrightarrow> a < 4294967296 \<Longrightarrow> uint (word_of_int a :: 32 word) = a"
  by (simp add: uint_word_of_int_eq take_bit_int_eq_self)

lemma uint_max_u32:
  assumes "0 \<le> a" "a < 4294967296" "0 \<le> b" "b < 4294967296"
  shows "uint (max_u32 a b) = max a b"
proof -
  have "(word_of_int a :: 32 word) \<le> word_of_int b \<longleftrightarrow> a \<le> b"
    using assms by (simp add: word_le_def uint_u32)
  then show ?thesis using assms by (simp add: max_u32_def max_def uint_u32)
qed

lemma max_u32_eq:
  assumes "0 \<le> a" "a < 4294967296" "0 \<le> b" "b < 4294967296"
    and "0 \<le> c" "c < 4294967296" "0 \<le> d" "d < 4294967296"
    and "max_u32 a b = max_u32 c d"
  shows "max a b = max c d"
proof -
  have "uint (max_u32 a b) = uint (max_u32 c d)" using assms(9) by simp
  then show ?thesis using assms(1-8) by (simp add: uint_max_u32)
qed

lemma danceNorth_preserves:
  assumes "d \<in> set (danceNorth w mt m attacked creaturePos keepAttack keepDistance can)"
  shows "max (abs (getX creaturePos + fst (directionOffset d)
                   - getX (cr_position (creatureOf w attacked))))
             (abs (getY creaturePos + snd (directionOffset d)
                   - getY (cr_position (creatureOf w attacked))))
           = chebyshev creaturePos (cr_position (creatureOf w attacked))"
proof -
  define c where "c = cr_position (creatureOf w attacked)"
  have d: "d = DIRECTION_NORTH"
    and eq: "max_u32 (abs (getOffsetX creaturePos c)) (abs ((getY creaturePos - 1) - getY c))
               = max_u32 (abs (getOffsetX creaturePos c)) (abs (getOffsetY creaturePos c))"
    using assms by (auto simp: danceNorth_def Let_def c_def split: if_splits)
  have "max (abs (getOffsetX creaturePos c)) (abs ((getY creaturePos - 1) - getY c))
          = max (abs (getOffsetX creaturePos c)) (abs (getOffsetY creaturePos c))"
    using getX_bounds [of creaturePos] getX_bounds [of c] getY_bounds [of creaturePos] getY_bounds [of c]
    by (intro max_u32_eq [OF _ _ _ _ _ _ _ _ eq]) (auto simp: getOffsetX_def getOffsetY_def)
  then show ?thesis
    by (simp add: d chebyshev_def getDistanceX_def getDistanceY_def
        getOffsetX_def getOffsetY_def c_def)
qed

lemma danceSouth_preserves:
  assumes "d \<in> set (danceSouth w mt m attacked creaturePos keepAttack keepDistance can)"
  shows "max (abs (getX creaturePos + fst (directionOffset d)
                   - getX (cr_position (creatureOf w attacked))))
             (abs (getY creaturePos + snd (directionOffset d)
                   - getY (cr_position (creatureOf w attacked))))
           = chebyshev creaturePos (cr_position (creatureOf w attacked))"
proof -
  define c where "c = cr_position (creatureOf w attacked)"
  have d: "d = DIRECTION_SOUTH"
    and eq: "max_u32 (abs (getOffsetX creaturePos c)) (abs ((getY creaturePos + 1) - getY c))
               = max_u32 (abs (getOffsetX creaturePos c)) (abs (getOffsetY creaturePos c))"
    using assms by (auto simp: danceSouth_def Let_def c_def split: if_splits)
  have "max (abs (getOffsetX creaturePos c)) (abs ((getY creaturePos + 1) - getY c))
          = max (abs (getOffsetX creaturePos c)) (abs (getOffsetY creaturePos c))"
    using getX_bounds [of creaturePos] getX_bounds [of c] getY_bounds [of creaturePos] getY_bounds [of c]
    by (intro max_u32_eq [OF _ _ _ _ _ _ _ _ eq]) (auto simp: getOffsetX_def getOffsetY_def)
  then show ?thesis
    by (simp add: d chebyshev_def getDistanceX_def getDistanceY_def
        getOffsetX_def getOffsetY_def c_def)
qed

lemma danceEast_preserves:
  assumes "d \<in> set (danceEast w mt m attacked creaturePos keepAttack keepDistance can)"
  shows "max (abs (getX creaturePos + fst (directionOffset d)
                   - getX (cr_position (creatureOf w attacked))))
             (abs (getY creaturePos + snd (directionOffset d)
                   - getY (cr_position (creatureOf w attacked))))
           = chebyshev creaturePos (cr_position (creatureOf w attacked))"
proof -
  define c where "c = cr_position (creatureOf w attacked)"
  have d: "d = DIRECTION_EAST"
    and eq: "max_u32 (abs ((getX creaturePos + 1) - getX c)) (abs (getOffsetY creaturePos c))
               = max_u32 (abs (getOffsetX creaturePos c)) (abs (getOffsetY creaturePos c))"
    using assms by (auto simp: danceEast_def Let_def c_def split: if_splits)
  have "max (abs ((getX creaturePos + 1) - getX c)) (abs (getOffsetY creaturePos c))
          = max (abs (getOffsetX creaturePos c)) (abs (getOffsetY creaturePos c))"
    using getX_bounds [of creaturePos] getX_bounds [of c] getY_bounds [of creaturePos] getY_bounds [of c]
    by (intro max_u32_eq [OF _ _ _ _ _ _ _ _ eq]) (auto simp: getOffsetX_def getOffsetY_def)
  then show ?thesis
    by (simp add: d chebyshev_def getDistanceX_def getDistanceY_def
        getOffsetX_def getOffsetY_def c_def)
qed

lemma danceWest_preserves:
  assumes "d \<in> set (danceWest w mt m attacked creaturePos keepAttack keepDistance can)"
  shows "max (abs (getX creaturePos + fst (directionOffset d)
                   - getX (cr_position (creatureOf w attacked))))
             (abs (getY creaturePos + snd (directionOffset d)
                   - getY (cr_position (creatureOf w attacked))))
           = chebyshev creaturePos (cr_position (creatureOf w attacked))"
proof -
  define c where "c = cr_position (creatureOf w attacked)"
  have d: "d = DIRECTION_WEST"
    and eq: "max_u32 (abs ((getX creaturePos - 1) - getX c)) (abs (getOffsetY creaturePos c))
               = max_u32 (abs (getOffsetX creaturePos c)) (abs (getOffsetY creaturePos c))"
    using assms by (auto simp: danceWest_def Let_def c_def split: if_splits)
  have "max (abs ((getX creaturePos - 1) - getX c)) (abs (getOffsetY creaturePos c))
          = max (abs (getOffsetX creaturePos c)) (abs (getOffsetY creaturePos c))"
    using getX_bounds [of creaturePos] getX_bounds [of c] getY_bounds [of creaturePos] getY_bounds [of c]
    by (intro max_u32_eq [OF _ _ _ _ _ _ _ _ eq]) (auto simp: getOffsetX_def getOffsetY_def)
  then show ?thesis
    by (simp add: d chebyshev_def getDistanceX_def getDistanceY_def
        getOffsetX_def getOffsetY_def c_def)
qed

lemma danceDirList_offsets:
  assumes "d \<in> set (danceDirList w mt m attacked creaturePos keepAttack keepDistance)"
  shows "max (abs (getX creaturePos + fst (directionOffset d)
                   - getX (cr_position (creatureOf w attacked))))
             (abs (getY creaturePos + snd (directionOffset d)
                   - getY (cr_position (creatureOf w attacked))))
           = chebyshev creaturePos (cr_position (creatureOf w attacked))"
  using assms unfolding danceDirList_def Let_def set_append Un_iff
  by (elim disjE)
    (erule danceNorth_preserves danceSouth_preserves danceEast_preserves danceWest_preserves)+

lemma danceDirList_preserves:
  assumes "d \<in> set (danceDirList w mt m attacked creaturePos keepAttack keepDistance)"
    and "stepStaysOnMap w d creaturePos"
  shows "chebyshev (getNextPosition w d creaturePos) (cr_position (creatureOf w attacked))
           = chebyshev creaturePos (cr_position (creatureOf w attacked))"
  using danceDirList_offsets [OF assms(1)] assms(2)
  by (simp add: stepStaysOnMap_def chebyshev_def getDistanceX_def getDistanceY_def
      getOffsetX_def getOffsetY_def)

text \<open>
  C7 (as the code has it). Every direction that \<^verbatim>\<open>getDanceStep\<close> puts on its list, and so
  every direction it returns (the generator picks an element of the list), leads to a
  position at the same Chebyshev distance from the attacked creature as the monster's
  position, for either value of \<open>keepAttack\<close> and of \<open>keepDistance\<close>, provided the step
  stays on the map: the function compares distances in signed arithmetic, where the tile
  north of row 0 is row -1, while the position the step leads to has 16-bit coordinates.
\<close>

theorem getDanceStep_preserves_distance:
  assumes "attackedCreature m = Some attacked"
  shows "(\<forall>d\<in>set (danceDirList w mt m attacked creaturePos keepAttack keepDistance).
            stepStaysOnMap w d creaturePos
            \<longrightarrow> chebyshev (getNextPosition w d creaturePos) (cr_position (creatureOf w attacked))
                  = chebyshev creaturePos (cr_position (creatureOf w attacked)))
         \<and> ((\<forall>dirs. dirs \<noteq> [] \<longrightarrow> se_pickDirection e dirs \<in> set dirs)
             \<and> getDanceStep w mt e m creaturePos direction keepAttack keepDistance = Inr (True, dir)
             \<and> stepStaysOnMap w dir creaturePos
            \<longrightarrow> chebyshev (getNextPosition w dir creaturePos) (cr_position (creatureOf w attacked))
                  = chebyshev creaturePos (cr_position (creatureOf w attacked)))"
proof (rule conjI)
  show "\<forall>d\<in>set (danceDirList w mt m attacked creaturePos keepAttack keepDistance).
            stepStaysOnMap w d creaturePos
            \<longrightarrow> chebyshev (getNextPosition w d creaturePos) (cr_position (creatureOf w attacked))
                  = chebyshev creaturePos (cr_position (creatureOf w attacked))"
    using danceDirList_preserves by blast
next
  show "(\<forall>dirs. dirs \<noteq> [] \<longrightarrow> se_pickDirection e dirs \<in> set dirs)
             \<and> getDanceStep w mt e m creaturePos direction keepAttack keepDistance = Inr (True, dir)
             \<and> stepStaysOnMap w dir creaturePos
            \<longrightarrow> chebyshev (getNextPosition w dir creaturePos) (cr_position (creatureOf w attacked))
                  = chebyshev creaturePos (cr_position (creatureOf w attacked))"
  proof
    assume h: "(\<forall>dirs. dirs \<noteq> [] \<longrightarrow> se_pickDirection e dirs \<in> set dirs)
             \<and> getDanceStep w mt e m creaturePos direction keepAttack keepDistance = Inr (True, dir)
             \<and> stepStaysOnMap w dir creaturePos"
    define dirList where "dirList = danceDirList w mt m attacked creaturePos keepAttack keepDistance"
    have "dirList \<noteq> [] \<and> dir = se_pickDirection e dirList"
      using h assms by (auto simp: getDanceStep_def Let_def dirList_def split: if_splits)
    then have "dir \<in> set dirList" using h by blast
    then show "chebyshev (getNextPosition w dir creaturePos) (cr_position (creatureOf w attacked))
                  = chebyshev creaturePos (cr_position (creatureOf w attacked))"
      unfolding dirList_def using h by (intro danceDirList_preserves) simp_all
  qed
qed

theorem getDanceStep_preserves_distance_witness:
  "getDanceStep (exWorld [5]) exArcher exStepEnv exDancer (mkPosition 10 10 7) DIRECTION_EAST True True
     = Inr (True, DIRECTION_NORTH)
   \<and> chebyshev (mkPosition 10 10 7) (mkPosition 13 10 7) = 3
   \<and> getNextPosition (exWorld [5]) DIRECTION_NORTH (mkPosition 10 10 7) = mkPosition 10 9 7
   \<and> chebyshev (mkPosition 10 9 7) (mkPosition 13 10 7) = 3"
proof -
  have h1: "attackedCreature exDancer = Some 5" by (simp add: exDancer_def)
  have h2: "\<forall>dirs. dirs \<noteq> [] \<longrightarrow> se_pickDirection exStepEnv dirs \<in> set dirs"
    by (simp add: exStepEnv_def)
  have l: "danceDirList (exWorld [5]) exArcher exDancer 5 (mkPosition 10 10 7) True True
             = [DIRECTION_NORTH, DIRECTION_SOUTH]"
    by (simp add: danceDirList_def danceNorth_def danceSouth_def danceEast_def danceWest_def
        canUseAttack_def canWalkTo_def isInSpawnRange_def max_u32_def stepPosition_def
        exArcher_def exDancer_def ex_defs Let_def)
  have h3: "getDanceStep (exWorld [5]) exArcher exStepEnv exDancer (mkPosition 10 10 7)
              DIRECTION_EAST True True = Inr (True, DIRECTION_NORTH)"
    using h1 l by (simp add: getDanceStep_def exStepEnv_def)
  have n: "getNextPosition (exWorld [5]) DIRECTION_NORTH (mkPosition 10 10 7) = mkPosition 10 9 7"
    by (simp add: stepPosition_def ex_defs)
  have h4: "stepStaysOnMap (exWorld [5]) DIRECTION_NORTH (mkPosition 10 10 7)"
    unfolding stepStaysOnMap_def n by (simp add: ex_defs)
  have c: "cr_position (creatureOf (exWorld [5]) 5) = mkPosition 13 10 7"
    by (simp add: ex_defs)
  have d: "chebyshev (mkPosition 10 10 7) (mkPosition 13 10 7) = 3"
    by (simp add: chebyshev_def ex_defs)
  show ?thesis
    using getDanceStep_preserves_distance [OF h1, THEN conjunct2, rule_format,
        OF conjI [OF h2 conjI [OF h3 h4]]] h3 n c d
    by simp
qed

text \<open>
  Without the proviso the sentence of the specification fails at the map border: from
  (10, 0) with the attacked creature at (13, 0) the function offers north, and the step
  north leads to row 65535.
\<close>

theorem getDanceStep_border_counterexample:
  "getDanceStep (exWorld [31]) exArcher exStepEnv exBorderDancer (mkPosition 10 0 7)
     DIRECTION_EAST False False = Inr (True, DIRECTION_NORTH)
   \<and> chebyshev (mkPosition 10 0 7) (cr_position (creatureOf (exWorld [31]) 31)) = 3
   \<and> chebyshev (getNextPosition (exWorld [31]) DIRECTION_NORTH (mkPosition 10 0 7))
        (cr_position (creatureOf (exWorld [31]) 31)) = 65535"
proof -
  have l: "danceDirList (exWorld [31]) exArcher exBorderDancer 31 (mkPosition 10 0 7) False False
             = [DIRECTION_NORTH, DIRECTION_SOUTH]"
    by (simp add: danceDirList_def danceNorth_def danceSouth_def danceEast_def danceWest_def
        canUseAttack_def canWalkTo_def isInSpawnRange_def max_u32_def stepPosition_def
        exArcher_def exBorderDancer_def ex_defs Let_def)
  have a: "getDanceStep (exWorld [31]) exArcher exStepEnv exBorderDancer (mkPosition 10 0 7)
             DIRECTION_EAST False False = Inr (True, DIRECTION_NORTH)"
    using l by (simp add: getDanceStep_def exStepEnv_def exBorderDancer_def)
  have b: "chebyshev (mkPosition 10 0 7) (cr_position (creatureOf (exWorld [31]) 31)) = 3"
    by (simp add: chebyshev_def ex_defs)
  have c: "chebyshev (getNextPosition (exWorld [31]) DIRECTION_NORTH (mkPosition 10 0 7))
             (cr_position (creatureOf (exWorld [31]) 31)) = 65535"
    by (simp add: chebyshev_def stepPosition_def ex_defs unsigned_minus_1_eq_mask
        mask_eq_exp_minus_1)
  show ?thesis using a b c by simp
qed

subsection \<open>Idle status\<close>

text \<open>
  C8. For a monster that is not removed and has positive health: a non-summon with an
  empty target list and no aggressive condition is idle after \<^verbatim>\<open>updateIdleStatus\<close>;
  whenever the update leaves the monster idle, both lists are empty; a non-empty target
  list makes the update clear the idle flag; and \<^verbatim>\<open>onCreatureFound\<close> on a visible
  opponent leaves that opponent in the target list with the idle flag cleared, and the
  next idle-status update keeps it cleared.
\<close>

theorem updateIdleStatus_idle:
  assumes "\<not> removed m" and "0 < health m"
  shows "(\<not> isSummon m \<and> targetList m = [] \<and> (\<forall>c\<in>set (conditions m). \<not> isAggressive c)
            \<longrightarrow> isIdle (updateIdleStatus m))
         \<and> (isIdle (updateIdleStatus m)
            \<longrightarrow> targetList (updateIdleStatus m) = [] \<and> friendList (updateIdleStatus m) = {})
         \<and> (targetList m \<noteq> [] \<longrightarrow> \<not> isIdle (updateIdleStatus m))
         \<and> (canSee w m (cr_position (creatureOf w c)) \<and> isOpponent w m c
            \<longrightarrow> Some c \<in> set (targetList (onCreatureFound w (Some c) pushFront m))
                \<and> \<not> isIdle (onCreatureFound w (Some c) pushFront m)
                \<and> \<not> isIdle (updateIdleStatus (onCreatureFound w (Some c) pushFront m)))"
proof -
  have a: "\<not> isSummon m \<and> targetList m = [] \<and> (\<forall>c\<in>set (conditions m). \<not> isAggressive c)
            \<longrightarrow> isIdle (updateIdleStatus m)"
    using assms by (simp add: updateIdleStatus_def setIdle_alive find_None_iff_all)
  have b: "isIdle (updateIdleStatus m)
            \<longrightarrow> targetList (updateIdleStatus m) = [] \<and> friendList (updateIdleStatus m) = {}"
    using assms by (simp add: updateIdleStatus_def setIdle_alive Let_def)
  have c: "\<not> isIdle (updateIdleStatus m')"
    if "targetList m' \<noteq> []" "\<not> removed m'" "0 < health m'" for m'
    using that by (simp add: updateIdleStatus_def setIdle_alive)
  have d: "Some c \<in> set (targetList (onCreatureFound w (Some c) pushFront m))
                \<and> \<not> isIdle (onCreatureFound w (Some c) pushFront m)
                \<and> \<not> isIdle (updateIdleStatus (onCreatureFound w (Some c) pushFront m))"
    if vis: "canSee w m (cr_position (creatureOf w c))" and opp: "isOpponent w m c"
  proof -
    define m1 where "m1 = (if isFriend w m c then addFriend c m else m)"
    define m2 where "m2 = addTarget c pushFront m1"
    have opp1: "isOpponent w m1 c"
      using opp by (simp add: m1_def isOpponent_def addFriend_def isSummon_def)
    have found: "onCreatureFound w (Some c) pushFront m = updateIdleStatus m2"
      using vis opp1 by (simp add: onCreatureFound_def m1_def m2_def Let_def)
    have alive2: "\<not> removed m2" "0 < health m2"
      using assms by (simp_all add: m2_def m1_def addTarget_def addFriend_def)
    have mem2: "Some c \<in> set (targetList m2)"
      by (simp add: m2_def addTarget_def)
    then have ne2: "targetList m2 \<noteq> []" by auto
    have upd: "updateIdleStatus m2 = m2\<lparr>isIdle := False, creatureCheck := True\<rparr>"
      using ne2 alive2 by (simp add: updateIdleStatus_def setIdle_alive)
    have "\<not> isIdle (updateIdleStatus (updateIdleStatus m2))"
      by (rule c) (use upd ne2 alive2 in simp_all)
    then show ?thesis using found upd mem2 by simp
  qed
  show ?thesis using a b c [of m] d assms by blast
qed

theorem updateIdleStatus_idle_witness:
  "isIdle (updateIdleStatus (newMonster 1 (mkPosition 10 10 7) 100))
   \<and> Some 7 \<in> set (targetList (onCreatureFound (exWorld [7]) (Some 7) False
                        (newMonster 1 (mkPosition 10 10 7) 100)))
   \<and> \<not> isIdle (onCreatureFound (exWorld [7]) (Some 7) False
                        (newMonster 1 (mkPosition 10 10 7) 100))"
proof -
  have h1: "\<not> removed (newMonster 1 (mkPosition 10 10 7) 100)"
    by (simp add: newMonster_def)
  have h2: "0 < health (newMonster 1 (mkPosition 10 10 7) 100)"
    by (simp add: newMonster_def)
  have h3: "\<not> isSummon (newMonster 1 (mkPosition 10 10 7) 100)
            \<and> targetList (newMonster 1 (mkPosition 10 10 7) 100) = []
            \<and> (\<forall>c\<in>set (conditions (newMonster 1 (mkPosition 10 10 7) 100)). \<not> isAggressive c)"
    by (simp add: newMonster_def isSummon_def)
  have h4: "canSee (exWorld [7]) (newMonster 1 (mkPosition 10 10 7) 100)
              (cr_position (creatureOf (exWorld [7]) 7))
            \<and> isOpponent (exWorld [7]) (newMonster 1 (mkPosition 10 10 7) 100) 7"
    by (simp add: ex_defs isOpponent_def isSummon_def)
  show ?thesis
    using updateIdleStatus_idle [OF h1 h2, of "exWorld [7]" 7 False] h3 h4 by blast
qed

subsection \<open>Health changes wake the monster\<close>

text \<open>
  C9. On a monster that is not removed and has positive health, \<^verbatim>\<open>changeHealth\<close> with any
  amount (damage, healing or zero) first clears the idle flag and registers the monster
  for its think checks; the base class's health change is applied to that state.
\<close>

theorem changeHealth_leaves_idle:
  assumes "\<not> removed m" and "0 < health m"
  shows "changeHealth Creature_changeHealth healthChange sendHealthChange m =
           Creature_changeHealth healthChange sendHealthChange
             (m\<lparr>isIdle := False, creatureCheck := True\<rparr>)
         \<and> \<not> isIdle (setIdle False m) \<and> creatureCheck (setIdle False m)"
  using assms by (simp add: changeHealth_def setIdle_alive)

theorem changeHealth_leaves_idle_witness:
  "changeHealth (\<lambda>healthChange _ m. m\<lparr>health := health m + healthChange\<rparr>) 25 True exWild
     = exWild\<lparr>isIdle := False, creatureCheck := True, health := 125\<rparr>"
proof -
  have h1: "\<not> removed exWild" by (simp add: exWild_def newMonster_def)
  have h2: "0 < health exWild" by (simp add: exWild_def newMonster_def)
  show ?thesis
    using changeHealth_leaves_idle [OF h1 h2,
        of "\<lambda>healthChange _ m. m\<lparr>health := health m + healthChange\<rparr>" 25 True]
    by (simp add: exWild_def newMonster_def)
qed

subsection \<open>Elemental modifiers never leave negative damage\<close>

text \<open>
  C10. In \<^verbatim>\<open>blockHit\<close>, when the species has a non-zero modifier for the combat type and
  the damage left by the base class is not zero: if that damage is positive and the
  scaled value is zero or below, the damage comes back as exactly 0 with
  \<open>BLOCK_ARMOR\<close>; and the damage returned is never negative, whatever the rounding
  yields.
\<close>

theorem blockHit_elemental_floor:
  assumes "elementMap combatType = Some elementMod" and "elementMod \<noteq> 0"
    and "damage \<noteq> 0"
  shows "(0 < damage \<and> scaled damage elementMod \<le> 0
            \<longrightarrow> blockHit (blockType, damage) scaled elementMap combatType = (BLOCK_ARMOR, 0))
         \<and> 0 \<le> snd (blockHit (blockType, damage) scaled elementMap combatType)"
  using assms by (simp add: blockHit_def Let_def)

theorem blockHit_elemental_floor_witness:
  "blockHit (BLOCK_NONE, 3) (\<lambda>damage elementMod. damage * (100 - elementMod) div 100)
     [1 \<mapsto> 100] 1 = (BLOCK_ARMOR, 0)"
proof -
  have h1: "[1 \<mapsto> 100] (1::nat) = Some (100::int)" by simp
  have h2: "(100::int) \<noteq> 0" by simp
  have h3: "(3::int) \<noteq> 0" by simp
  show ?thesis
    using h1 h2 h3 blockHit_elemental_floor [where elementMap = "[1 \<mapsto> 100]" and combatType = 1
        and elementMod = 100 and damage = 3 and blockType = BLOCK_NONE
        and scaled = "\<lambda>damage elementMod. damage * (100 - elementMod) div 100"]
    by simp
qed

end
